theory Spec2Isabelle
  imports Complex_Main "HOL-Library.Word" "HOL-Library.Signed_Division"
begin

section \<open>Machine integers\<close>

text \<open>
  Go's \<^verbatim>\<open>int\<close> is taken at its 64-bit width: addition, subtraction and multiplication
  wrap around, comparisons are signed (\<open><s\<close>, \<open>\<le>s\<close>), and \<^verbatim>\<open>/\<close> and \<^verbatim>\<open>%\<close> truncate
  towards zero. \<^verbatim>\<open>uint32\<close> is a 32-bit word with unsigned comparisons.
\<close>

type_synonym go_int = "64 word"
type_synonym uint32 = "32 word"

definition go_div :: "go_int \<Rightarrow> go_int \<Rightarrow> go_int" where
  "go_div a b = word_of_int (sint a sdiv sint b)"

definition go_mod :: "go_int \<Rightarrow> go_int \<Rightarrow> go_int" where
  "go_mod a b = word_of_int (sint a smod sint b)"

text \<open>\<^verbatim>\<open>uint32(n)\<close> for an \<^verbatim>\<open>int\<close> n keeps the low 32 bits.\<close>

definition to_uint32 :: "go_int \<Rightarrow> uint32" where
  "to_uint32 n = ucast n"

section \<open>Rectangles and the output buffer (Go's package image)\<close>

record Point =
  X :: go_int
  Y :: go_int

record Rectangle =
  Min_pt :: Point
  Max_pt :: Point

text \<open>\<^verbatim>\<open>image.Rect(x0, y0, x1, y1)\<close> orders each pair of coordinates.\<close>

definition image_Rect :: "go_int \<Rightarrow> go_int \<Rightarrow> go_int \<Rightarrow> go_int \<Rightarrow> Rectangle" where
  "image_Rect x0 y0 x1 y1 =
     \<lparr>Min_pt = \<lparr>X = (if x1 <s x0 then x1 else x0), Y = (if y1 <s y0 then y1 else y0)\<rparr>,
      Max_pt = \<lparr>X = (if x1 <s x0 then x0 else x1), Y = (if y1 <s y0 then y0 else y1)\<rparr>\<rparr>"

text \<open>\<^verbatim>\<open>image.Rectangle{}\<close>, the zero value.\<close>

definition ZR :: Rectangle where
  "ZR = \<lparr>Min_pt = \<lparr>X = 0, Y = 0\<rparr>, Max_pt = \<lparr>X = 0, Y = 0\<rparr>\<rparr>"

definition Dx :: "Rectangle \<Rightarrow> go_int" where
  "Dx r = X (Max_pt r) - X (Min_pt r)"

definition Dy :: "Rectangle \<Rightarrow> go_int" where
  "Dy r = Y (Max_pt r) - Y (Min_pt r)"

record NRGBA =
  Pix :: "8 word list"
  Stride :: go_int
  Rect :: Rectangle

datatype err =
    ErrUnsupportedOrientation
  | ErrUnsupportedRenderOrder
  | ErrOutOfBounds
  | ErrExternal string
  | PanicIndexOutOfRange
  | PanicNilDereference
  | PanicHugeImage

text \<open>
  \<^verbatim>\<open>image.NewNRGBA(r)\<close>: a zeroed pixel buffer of 4 bytes per pixel with bounds r. The
  library panics when a side is negative or when the byte count, multiplied out as
  4 times the width times the height, leaves the range of an \<^verbatim>\<open>int\<close> at either
  multiplication. Running out of memory is not modelled.
\<close>

definition NewNRGBA :: "Rectangle \<Rightarrow> err + NRGBA" where
  "NewNRGBA r =
     (if sint (Dx r) < 0 \<or> sint (Dy r) < 0 \<or> 2 ^ 62 \<le> sint (Dx r)
         \<or> 2 ^ 63 \<le> 4 * sint (Dx r) * sint (Dy r)
      then Inl PanicHugeImage
      else Inr \<lparr>Pix = replicate (nat (4 * sint (Dx r) * sint (Dy r))) 0,
                Stride = 4 * Dx r, Rect = r\<rparr>)"

section \<open>The map model consumed by the renderer (package tiled)\<close>

text \<open>
  The declarations of package tiled are not part of the rendering sources; the records
  below hold the fields the renderer reads, with the types the renderer uses them at.
  The two axis constants are only known to be distinct, any further value of the
  string-typed axis is \<open>AxisOther\<close>.
\<close>

datatype Axis = AxisX | AxisY | AxisOther string

record Image =
  Source :: string

record TilesetTile =
  TilesetTile_ID :: uint32
  TilesetTile_Image :: "Image option"

record Tileset =
  FirstGID :: uint32
  TileCount :: go_int
  Tileset_Image :: "Image option"
  Tileset_Tiles :: "TilesetTile list"

record LayerTile =
  ID :: uint32
  Tileset :: "Tileset option"
  HorizontalFlip :: bool
  VerticalFlip :: bool
  DiagonalFlip :: bool
  Nil :: bool

definition IsNil :: "LayerTile \<Rightarrow> bool" where
  "IsNil t = Nil t"

record Layer =
  Tiles :: "LayerTile list"
  Opacity :: real
  Visible :: bool

record Group =
  Group_Layers :: "Layer list"

record tiled_Map =
  Width :: go_int
  Height :: go_int
  TileWidth :: go_int
  TileHeight :: go_int
  HexSideLength :: go_int
  Orientation :: string
  RenderOrder :: string
  StaggerAxis :: Axis
  Layers :: "Layer list"
  Groups :: "Group list"

section \<open>Bounds\<close>

record Bounds =
  offsetX :: go_int
  offsetY :: go_int
  limitX :: go_int
  limitY :: go_int

definition SetLimit :: "Bounds \<Rightarrow> go_int \<Rightarrow> go_int \<Rightarrow> Bounds" where
  "SetLimit b x y =
     (let b1 = (if 1 \<le>s x then b\<lparr>limitX := x\<rparr> else b);
          b2 = (if 1 \<le>s y then b1\<lparr>limitY := y\<rparr> else b1)
      in b2)"

definition AddOffset :: "Bounds \<Rightarrow> go_int \<Rightarrow> go_int \<Rightarrow> Bounds" where
  "AddOffset b x y =
     (let b1 = b\<lparr>offsetX := offsetX b + x\<rparr>;
          b2 = (if offsetX b1 <s 0 then b1\<lparr>offsetX := 0\<rparr> else b1);
          b3 = b2\<lparr>offsetY := offsetY b2 + y\<rparr>;
          b4 = (if offsetY b3 <s 0 then b3\<lparr>offsetY := 0\<rparr> else b3)
      in b4)"

section \<open>The hexagonal engine\<close>

text \<open>The engine holds the map it was initialised with; its methods take that map.\<close>

definition GetFinalImageSize :: "tiled_Map \<Rightarrow> Bounds \<Rightarrow> Rectangle" where
  "GetFinalImageSize em bounds =
     (case StaggerAxis em of
        AxisX \<Rightarrow>
          (let addon = go_div (TileWidth em - HexSideLength em) 2
           in image_Rect 0 0 (limitX bounds * (TileWidth em - addon) + addon)
                (limitY bounds * TileHeight em + go_div (TileHeight em) 2))
      | AxisY \<Rightarrow>
          (let addon = go_div (TileHeight em - HexSideLength em) 2
           in image_Rect 0 0 (limitX bounds * TileWidth em + go_div (TileWidth em) 2)
                (limitY bounds * (TileHeight em - addon) + addon))
      | AxisOther s \<Rightarrow> ZR)"

definition oddCheckValue :: "bool \<Rightarrow> go_int" where
  "oddCheckValue startOdd = (if startOdd then 0 else 1)"

definition yBump :: "tiled_Map \<Rightarrow> go_int \<Rightarrow> bool \<Rightarrow> go_int" where
  "yBump em x startOdd =
     (if go_mod x 2 = oddCheckValue startOdd then go_div (TileHeight em) 2 else 0)"

definition xBump :: "tiled_Map \<Rightarrow> go_int \<Rightarrow> bool \<Rightarrow> go_int" where
  "xBump em y startOdd =
     (if go_mod y 2 = oddCheckValue startOdd then go_div (TileWidth em) 2 else 0)"

definition GetTilePosition :: "tiled_Map \<Rightarrow> go_int \<Rightarrow> go_int \<Rightarrow> bool \<Rightarrow> Rectangle" where
  "GetTilePosition em x y startOdd =
     (case StaggerAxis em of
        AxisX \<Rightarrow>
          (let offsetWidth = go_div (TileWidth em - HexSideLength em) 2 + HexSideLength em
           in image_Rect (x * offsetWidth)
                (y * TileHeight em + yBump em x startOdd)
                (x * offsetWidth + TileWidth em)
                ((y + 2) * TileHeight em + yBump em x startOdd))
      | AxisY \<Rightarrow>
          (let offsetHeight = go_div (TileHeight em - HexSideLength em) 2 + HexSideLength em
           in image_Rect (x * TileWidth em + xBump em y startOdd)
                (y * offsetHeight)
                ((x + 2) * TileWidth em + xBump em y startOdd)
                ((y + 1) * offsetHeight + TileHeight em))
      | AxisOther s \<Rightarrow> ZR)"

section \<open>External collaborators\<close>

text \<open>
  What the renderer calls outside its own sources is a parameter of the model: the
  operating system's file opening, the image decoder, the imaging library's crop, flips
  and rotation, the drawing routines (\<^verbatim>\<open>draw.Draw\<close> and \<^verbatim>\<open>draw.DrawMask\<close> with operator
  Over, source point \<^verbatim>\<open>img.Bounds().Min\<close>, the mask built from the layer's opacity), the
  tileset's path and rectangle helpers, and the orthogonal engine. An image value of type
  \<open>'img\<close> is a non-nil \<^verbatim>\<open>image.Image\<close>; a possibly nil one is an \<open>'img option\<close>. Closing of
  opened files (\<^verbatim>\<open>defer sf.Close()\<close>) has no effect on the renderer and is left out.
\<close>

record ('img, 'stream) ext =
  os_Open :: "string \<Rightarrow> err + 'stream"
  image_Decode :: "'stream \<Rightarrow> err + 'img"
  imaging_Crop :: "'img \<Rightarrow> Rectangle \<Rightarrow> 'img"
  imaging_FlipH :: "'img \<Rightarrow> 'img"
  imaging_FlipV :: "'img \<Rightarrow> 'img"
  imaging_Rotate90 :: "'img \<Rightarrow> 'img"
  draw_Draw :: "NRGBA \<Rightarrow> Rectangle \<Rightarrow> 'img \<Rightarrow> NRGBA"
  draw_DrawMask :: "NRGBA \<Rightarrow> Rectangle \<Rightarrow> 'img \<Rightarrow> real \<Rightarrow> NRGBA"
  GetFileFullPath :: "Tileset \<Rightarrow> string \<Rightarrow> string"
  GetTileRect :: "Tileset \<Rightarrow> uint32 \<Rightarrow> Rectangle"
  ortho_GetFinalImageSize :: "tiled_Map \<Rightarrow> Bounds \<Rightarrow> Rectangle"
  ortho_RotateTileImage :: "LayerTile \<Rightarrow> 'img option \<Rightarrow> err + 'img option"
  ortho_GetTilePosition :: "tiled_Map \<Rightarrow> go_int \<Rightarrow> go_int \<Rightarrow> bool \<Rightarrow> Rectangle"

text \<open>A call of the imaging library on a nil image panics.\<close>

definition imaging_call :: "('img \<Rightarrow> 'img) \<Rightarrow> err + 'img option \<Rightarrow> err + 'img option" where
  "imaging_call f v =
     (case v of
        Inl e \<Rightarrow> Inl e
      | Inr None \<Rightarrow> Inl PanicNilDereference
      | Inr (Some i) \<Rightarrow> Inr (Some (f i)))"

definition RotateTileImage ::
  "('img, 'stream) ext \<Rightarrow> LayerTile \<Rightarrow> 'img option \<Rightarrow> err + 'img option" where
  "RotateTileImage ex tile img =
     (let timg = Inr img;
          timg1 = (if HorizontalFlip tile then imaging_call (imaging_FlipH ex) timg else timg);
          timg2 = (if VerticalFlip tile then imaging_call (imaging_FlipV ex) timg1 else timg1);
          timg3 = (if DiagonalFlip tile
                   then imaging_call (imaging_FlipH ex) (imaging_call (imaging_Rotate90 ex) timg2)
                   else timg2)
      in timg3)"

section \<open>The renderer\<close>

datatype RendererEngine =
    OrthogonalRendererEngine tiled_Map
  | HexagonalRendererEngine tiled_Map

definition engine_GetFinalImageSize ::
  "('img, 'stream) ext \<Rightarrow> RendererEngine \<Rightarrow> Bounds \<Rightarrow> Rectangle" where
  "engine_GetFinalImageSize ex e bounds =
     (case e of
        OrthogonalRendererEngine em \<Rightarrow> ortho_GetFinalImageSize ex em bounds
      | HexagonalRendererEngine em \<Rightarrow> GetFinalImageSize em bounds)"

definition engine_RotateTileImage ::
  "('img, 'stream) ext \<Rightarrow> RendererEngine \<Rightarrow> LayerTile \<Rightarrow> 'img option \<Rightarrow> err + 'img option" where
  "engine_RotateTileImage ex e tile img =
     (case e of
        OrthogonalRendererEngine em \<Rightarrow> ortho_RotateTileImage ex tile img
      | HexagonalRendererEngine em \<Rightarrow> RotateTileImage ex tile img)"

definition engine_GetTilePosition ::
  "('img, 'stream) ext \<Rightarrow> RendererEngine \<Rightarrow> go_int \<Rightarrow> go_int \<Rightarrow> bool \<Rightarrow> Rectangle" where
  "engine_GetTilePosition ex e x y startOdd =
     (case e of
        OrthogonalRendererEngine em \<Rightarrow> ortho_GetTilePosition ex em x y startOdd
      | HexagonalRendererEngine em \<Rightarrow> GetTilePosition em x y startOdd)"

record ('img, 'stream) Renderer =
  m :: tiled_Map
  Result :: NRGBA
  ResultBounds :: Bounds
  tileCache :: "uint32 \<rightharpoonup> 'img"
  engine :: RendererEngine
  fs :: "(string \<Rightarrow> err + 'stream) option"

definition Clear ::
  "('img, 'stream) ext \<Rightarrow> ('img, 'stream) Renderer \<Rightarrow> err + ('img, 'stream) Renderer" where
  "Clear ex r =
     (case NewNRGBA (engine_GetFinalImageSize ex (engine r) (ResultBounds r)) of
        Inl e \<Rightarrow> Inl e
      | Inr img \<Rightarrow> Inr (r\<lparr>Result := img\<rparr>))"

text \<open>
  The constructor. The record needs a buffer before the first \<open>Clear\<close>, where the Go
  value holds a nil pointer; \<open>Clear\<close> replaces it or panics, so it is never read.
\<close>

definition NewRendererWithFileSystem ::
  "('img, 'stream) ext \<Rightarrow> tiled_Map \<Rightarrow> (string \<Rightarrow> err + 'stream) option
     \<Rightarrow> err + ('img, 'stream) Renderer" where
  "NewRendererWithFileSystem ex mp f =
     (if Orientation mp = ''orthogonal'' \<or> Orientation mp = ''hexagonal''
      then Clear ex
             \<lparr>m = mp,
              Result = \<lparr>Pix = [], Stride = 0, Rect = ZR\<rparr>,
              ResultBounds = \<lparr>offsetX = 0, offsetY = 0, limitX = Width mp, limitY = Height mp\<rparr>,
              tileCache = Map.empty,
              engine = (if Orientation mp = ''orthogonal''
                        then OrthogonalRendererEngine mp else HexagonalRendererEngine mp),
              fs = f\<rparr>
      else Inl ErrUnsupportedOrientation)"

definition NewRenderer ::
  "('img, 'stream) ext \<Rightarrow> tiled_Map \<Rightarrow> err + ('img, 'stream) Renderer" where
  "NewRenderer ex mp = NewRendererWithFileSystem ex mp None"

definition open_file ::
  "('img, 'stream) ext \<Rightarrow> ('img, 'stream) Renderer \<Rightarrow> string \<Rightarrow> err + 'stream" where
  "open_file ex r f = (case fs r of Some g \<Rightarrow> g f | None \<Rightarrow> os_Open ex f)"

subsection \<open>The tile cache\<close>

text \<open>
  The loop of \<^verbatim>\<open>getTileImage\<close> over the tiles of a tileset without a shared image. It
  carries the local \<^verbatim>\<open>timg\<close> and the renderer, and stops at the first error.
\<close>

fun loadTiles ::
  "('img, 'stream) ext \<Rightarrow> Tileset \<Rightarrow> LayerTile \<Rightarrow> TilesetTile list \<Rightarrow> 'img option
     \<Rightarrow> ('img, 'stream) Renderer \<Rightarrow> err option \<times> 'img option \<times> ('img, 'stream) Renderer" where
  "loadTiles ex ts tile [] timg r = (None, timg, r)"
| "loadTiles ex ts tile (t # rest) timg r =
     (if TilesetTile_ID t = ID tile then
        (case TilesetTile_Image t of
           None \<Rightarrow> (Some PanicNilDereference, timg, r)
         | Some im \<Rightarrow>
             (case open_file ex r (GetFileFullPath ex ts (Source im)) of
                Inl e \<Rightarrow> (Some e, None, r)
              | Inr sf \<Rightarrow>
                  (case image_Decode ex sf of
                     Inl e \<Rightarrow> (Some e, None, r)
                   | Inr d \<Rightarrow>
                       loadTiles ex ts tile rest (Some d)
                         (r\<lparr>tileCache := (tileCache r)(FirstGID ts + ID tile \<mapsto> d)\<rparr>))))
      else loadTiles ex ts tile rest timg r)"

text \<open>The loop over the indices of a tileset with a shared image, from \<open>i\<close> up to \<open>n\<close>.\<close>

function cropTiles ::
  "('img, 'stream) ext \<Rightarrow> Tileset \<Rightarrow> LayerTile \<Rightarrow> 'img \<Rightarrow> uint32 \<Rightarrow> uint32 \<Rightarrow> 'img option
     \<Rightarrow> ('img, 'stream) Renderer \<Rightarrow> 'img option \<times> ('img, 'stream) Renderer" where
  "cropTiles ex ts tile img n i timg r =
     (if i < n then
        (let r' = r\<lparr>tileCache :=
                      (tileCache r)(i + FirstGID ts \<mapsto> imaging_Crop ex img (GetTileRect ex ts i))\<rparr>;
             timg' = (if ID tile = i then tileCache r' (i + FirstGID ts) else timg)
         in cropTiles ex ts tile img n (i + 1) timg' r')
      else (timg, r))"
  by pat_completeness auto
termination
proof (relation "measure (\<lambda>(ex, ts, tile, img, n, i, timg, r). unat n - unat i)")
  show "wf (measure (\<lambda>(ex :: ('img, 'stream) ext, ts :: Tileset, tile :: LayerTile, img :: 'img,
      n :: uint32, i :: uint32, timg :: 'img option, r :: ('img, 'stream) Renderer). unat n - unat i))"
    by simp
next
  fix ex :: "('img, 'stream) ext" and ts :: Tileset and tile :: LayerTile and img :: 'img
    and n i :: uint32 and timg :: "'img option" and r x :: "('img, 'stream) Renderer"
    and xa :: "'img option"
  assume lt: "i < n"
  then have "i \<noteq> - 1"
    by (metis word_order.extremum_strict)
  then have "1 + i \<noteq> 0"
    by (simp add: add_eq_0_iff)
  then have "unat (i + 1) = Suc (unat i)"
    using unatSuc [of i] by (simp add: add.commute)
  moreover from lt have "unat i < unat n"
    by (simp add: word_less_nat_alt)
  ultimately show "((ex, ts, tile, img, n, i + 1, xa, x), (ex, ts, tile, img, n, i, timg, r))
      \<in> measure (\<lambda>(ex, ts, tile, img, n, i, timg, r). unat n - unat i)"
    by simp
qed

declare cropTiles.simps [simp del]

text \<open>
  \<^verbatim>\<open>getTileImage\<close> returns the image or the error, and the renderer with the cache as
  the call left it.
\<close>

definition getTileImage ::
  "('img, 'stream) ext \<Rightarrow> ('img, 'stream) Renderer \<Rightarrow> LayerTile
     \<Rightarrow> (err + 'img option) \<times> ('img, 'stream) Renderer" where
  "getTileImage ex r tile =
     (case Tileset tile of
        None \<Rightarrow> (Inl PanicNilDereference, r)
      | Some ts \<Rightarrow>
          (case tileCache r (FirstGID ts + ID tile) of
             Some timg \<Rightarrow> (engine_RotateTileImage ex (engine r) tile (Some timg), r)
           | None \<Rightarrow>
               (case Tileset_Image ts of
                  None \<Rightarrow>
                    (case loadTiles ex ts tile (Tileset_Tiles ts) None r of
                       (Some e, timg, r') \<Rightarrow> (Inl e, r')
                     | (None, timg, r') \<Rightarrow>
                         (engine_RotateTileImage ex (engine r') tile timg, r'))
                | Some im \<Rightarrow>
                    (case open_file ex r (GetFileFullPath ex ts (Source im)) of
                       Inl e \<Rightarrow> (Inl e, r)
                     | Inr sf \<Rightarrow>
                         (case image_Decode ex sf of
                            Inl e \<Rightarrow> (Inl e, r)
                          | Inr img \<Rightarrow>
                              (case cropTiles ex ts tile img (to_uint32 (TileCount ts)) 0 None r of
                                 (timg, r') \<Rightarrow>
                                   (engine_RotateTileImage ex (engine r') tile timg, r')))))))"

subsection \<open>Rendering a layer\<close>

text \<open>
  \<open>renderTile\<close> and \<open>renderLayer\<close> are the source's \<^verbatim>\<open>_renderTile\<close> and \<^verbatim>\<open>_renderLayer\<close>.
  They return the error (\<open>None\<close> is Go's nil) and the renderer as the call left it.
  The counter \<^verbatim>\<open>cnt\<close> of \<^verbatim>\<open>_renderLayer\<close> is never read and is left out. The elements
  of the slices of layers, groups and tiles are taken to be non-nil pointers.
\<close>

definition renderTile ::
  "('img, 'stream) ext \<Rightarrow> ('img, 'stream) Renderer \<Rightarrow> Layer \<Rightarrow> go_int \<Rightarrow> go_int \<Rightarrow> go_int
     \<Rightarrow> bool \<Rightarrow> err option \<times> ('img, 'stream) Renderer" where
  "renderTile ex r layer i x y startOdd =
     (if sint i < 0 \<or> int (length (Tiles layer)) \<le> sint i then (Some PanicIndexOutOfRange, r)
      else if IsNil (Tiles layer ! nat (sint i)) then (None, r)
      else
        (case getTileImage ex r (Tiles layer ! nat (sint i)) of
           (Inl e, r') \<Rightarrow> (Some e, r')
         | (Inr None, r') \<Rightarrow> (Some PanicNilDereference, r')
         | (Inr (Some img), r') \<Rightarrow>
             (let pos = engine_GetTilePosition ex (engine r') x y startOdd
              in if Opacity layer < 1
                 then (None, r'\<lparr>Result := draw_DrawMask ex (Result r') pos img (Opacity layer)\<rparr>)
                 else (None, r'\<lparr>Result := draw_Draw ex (Result r') pos img\<rparr>))))"

text \<open>The inner loop of \<open>renderLayer\<close>: the columns from \<open>x\<close> up to \<open>xe\<close> of row \<open>y\<close>.\<close>

function renderRow ::
  "('img, 'stream) ext \<Rightarrow> Layer \<Rightarrow> go_int \<Rightarrow> go_int \<Rightarrow> go_int \<Rightarrow> go_int \<Rightarrow> bool \<Rightarrow> go_int
     \<Rightarrow> ('img, 'stream) Renderer \<Rightarrow> err option \<times> ('img, 'stream) Renderer" where
  "renderRow ex layer xs xe ys y startOdd x r =
     (if x <s xe then
        (case renderTile ex r layer (y * Width (m r) + x) (x - xs) (y - ys) startOdd of
           (Some e, r') \<Rightarrow> (Some e, r')
         | (None, r') \<Rightarrow> renderRow ex layer xs xe ys y startOdd (x + 1) r')
      else (None, r))"
  by pat_completeness auto
termination
proof (relation "measure (\<lambda>(ex, layer, xs, xe, ys, y, startOdd, x, r). nat (sint xe - sint x))")
  show "wf (measure (\<lambda>(ex :: ('img, 'stream) ext, layer :: Layer, xs :: go_int, xe :: go_int,
      ys :: go_int, y :: go_int, startOdd :: bool, x :: go_int, r :: ('img, 'stream) Renderer).
      nat (sint xe - sint x)))"
    by simp
next
  fix ex :: "('img, 'stream) ext" and layer :: Layer and xs xe ys y x :: go_int
    and startOdd :: bool and r r' :: "('img, 'stream) Renderer"
    and res :: "err option \<times> ('img, 'stream) Renderer" and e :: "err option"
  assume lt: "x <s xe"
  have a: "sint x < sint xe" using lt by (simp add: word_sless_alt)
  have b: "sint xe < 2 ^ 63" using sint_lt [of xe] by simp
  have c: "- (2 ^ 63) \<le> sint x" using sint_ge [of x] by simp
  have "sint (x + 1) = signed_take_bit 63 (sint x + 1)"
    by (simp add: sint_word_ariths)
  also have "\<dots> = sint x + 1"
    using a b c by (simp add: signed_take_bit_int_eq_self)
  finally have "sint (x + 1) = sint x + 1" .
  with a show "((ex, layer, xs, xe, ys, y, startOdd, x + 1, r'), (ex, layer, xs, xe, ys, y, startOdd, x, r))
      \<in> measure (\<lambda>(ex, layer, xs, xe, ys, y, startOdd, x, r). nat (sint xe - sint x))"
    by simp
qed

declare renderRow.simps [simp del]

text \<open>The outer loop: the rows from \<open>y\<close> up to \<open>ye\<close>.\<close>

function renderRows ::
  "('img, 'stream) ext \<Rightarrow> Layer \<Rightarrow> go_int \<Rightarrow> go_int \<Rightarrow> go_int \<Rightarrow> go_int \<Rightarrow> bool \<Rightarrow> go_int
     \<Rightarrow> ('img, 'stream) Renderer \<Rightarrow> err option \<times> ('img, 'stream) Renderer" where
  "renderRows ex layer xs xe ys ye startOdd y r =
     (if y <s ye then
        (case renderRow ex layer xs xe ys y startOdd xs r of
           (Some e, r') \<Rightarrow> (Some e, r')
         | (None, r') \<Rightarrow> renderRows ex layer xs xe ys ye startOdd (y + 1) r')
      else (None, r))"
  by pat_completeness auto
termination
proof (relation "measure (\<lambda>(ex, layer, xs, xe, ys, ye, startOdd, y, r). nat (sint ye - sint y))")
  show "wf (measure (\<lambda>(ex :: ('img, 'stream) ext, layer :: Layer, xs :: go_int, xe :: go_int,
      ys :: go_int, ye :: go_int, startOdd :: bool, y :: go_int, r :: ('img, 'stream) Renderer).
      nat (sint ye - sint y)))"
    by simp
next
  fix ex :: "('img, 'stream) ext" and layer :: Layer and xs xe ys ye y :: go_int
    and startOdd :: bool and r r' :: "('img, 'stream) Renderer"
  assume lt: "y <s ye"
  have a: "sint y < sint ye" using lt by (simp add: word_sless_alt)
  have b: "sint ye < 2 ^ 63" using sint_lt [of ye] by simp
  have c: "- (2 ^ 63) \<le> sint y" using sint_ge [of y] by simp
  have "sint (y + 1) = signed_take_bit 63 (sint y + 1)"
    by (simp add: sint_word_ariths)
  also have "\<dots> = sint y + 1"
    using a b c by (simp add: signed_take_bit_int_eq_self)
  finally have "sint (y + 1) = sint y + 1" .
  with a show "((ex, layer, xs, xe, ys, ye, startOdd, y + 1, r'), (ex, layer, xs, xe, ys, ye, startOdd, y, r))
      \<in> measure (\<lambda>(ex, layer, xs, xe, ys, ye, startOdd, y, r). nat (sint ye - sint y))"
    by simp
qed

declare renderRows.simps [simp del]

definition renderLayer ::
  "('img, 'stream) ext \<Rightarrow> ('img, 'stream) Renderer \<Rightarrow> Layer
     \<Rightarrow> err option \<times> ('img, 'stream) Renderer" where
  "renderLayer ex r layer =
     (if (Orientation (m r) = ''hexagonal'' \<or> Orientation (m r) = ''orthogonal'')
         \<and> RenderOrder (m r) = ''right-down''
      then
        (let xs = offsetX (ResultBounds r);
             xe0 = offsetX (ResultBounds r) + limitX (ResultBounds r);
             xe = (if Width (m r) <s xe0 then Width (m r) else xe0);
             ys = offsetY (ResultBounds r);
             ye0 = offsetY (ResultBounds r) + limitY (ResultBounds r);
             ye = (if Height (m r) <s ye0 then Height (m r) else ye0);
             startOdd = (go_mod (offsetY (ResultBounds r)) 2 = 1)
         in renderRows ex layer xs xe ys ye startOdd ys r)
      else (Some ErrUnsupportedRenderOrder, r))"

text \<open>
  An index below zero passes the guard \<^verbatim>\<open>id >= len(...)\<close> and the slice access panics.
\<close>

definition RenderGroupLayer ::
  "('img, 'stream) ext \<Rightarrow> ('img, 'stream) Renderer \<Rightarrow> go_int \<Rightarrow> go_int
     \<Rightarrow> err option \<times> ('img, 'stream) Renderer" where
  "RenderGroupLayer ex r groupID layerID =
     (if int (length (Groups (m r))) \<le> sint groupID then (Some ErrOutOfBounds, r)
      else if sint groupID < 0 then (Some PanicIndexOutOfRange, r)
      else
        (let group = Groups (m r) ! nat (sint groupID)
         in if int (length (Group_Layers group)) \<le> sint layerID then (Some ErrOutOfBounds, r)
            else if sint layerID < 0 then (Some PanicIndexOutOfRange, r)
            else renderLayer ex r (Group_Layers group ! nat (sint layerID))))"

definition RenderLayer ::
  "('img, 'stream) ext \<Rightarrow> ('img, 'stream) Renderer \<Rightarrow> go_int
     \<Rightarrow> err option \<times> ('img, 'stream) Renderer" where
  "RenderLayer ex r idx =
     (if int (length (Layers (m r))) \<le> sint idx then (Some ErrOutOfBounds, r)
      else if sint idx < 0 then (Some PanicIndexOutOfRange, r)
      else renderLayer ex r (Layers (m r) ! nat (sint idx)))"

section \<open>Example inputs\<close>

text \<open>
  A small world to run the renderer in: an image is the record of how it was made, a
  stream is the path it was opened from, every file opens and decodes, and the drawing
  routines append the origin of the destination rectangle to the pixel bytes, so that
  what was drawn where can be read off the buffer. The orthogonal engine is not
  exercised by the example maps, which are hexagonal.
\<close>

datatype test_img =
    Decoded string
  | Cropped test_img Rectangle
  | FlippedH test_img
  | FlippedV test_img
  | Rotated90 test_img

definition test_draw :: "NRGBA \<Rightarrow> Rectangle \<Rightarrow> NRGBA" where
  "test_draw buf pos = buf\<lparr>Pix := Pix buf @ [ucast (X (Min_pt pos)), ucast (Y (Min_pt pos))]\<rparr>"

definition test_ext :: "(test_img, string) ext" where
  "test_ext =
     \<lparr>os_Open = (\<lambda>p. Inr p),
      image_Decode = (\<lambda>s. Inr (Decoded s)),
      imaging_Crop = Cropped,
      imaging_FlipH = FlippedH,
      imaging_FlipV = FlippedV,
      imaging_Rotate90 = Rotated90,
      draw_Draw = (\<lambda>buf pos img. test_draw buf pos),
      draw_DrawMask = (\<lambda>buf pos img a. test_draw buf pos),
      GetFileFullPath = (\<lambda>ts p. p),
      GetTileRect = (\<lambda>ts i. image_Rect (ucast i * 4) 0 (ucast i * 4 + 4) 4),
      ortho_GetFinalImageSize = (\<lambda>em b. ZR),
      ortho_RotateTileImage = (\<lambda>t img. Inr img),
      ortho_GetTilePosition = (\<lambda>em x y startOdd. ZR)\<rparr>"

text \<open>A tileset with one shared image of two tiles, and one with two separate images.\<close>

definition atlasTileset :: Tileset where
  "atlasTileset =
     \<lparr>FirstGID = 1, TileCount = 2, Tileset_Image = Some \<lparr>Source = ''atlas.png''\<rparr>,
      Tileset_Tiles = []\<rparr>"

definition collectionTileset :: Tileset where
  "collectionTileset =
     \<lparr>FirstGID = 1, TileCount = 2, Tileset_Image = None,
      Tileset_Tiles =
        [\<lparr>TilesetTile_ID = 0, TilesetTile_Image = Some \<lparr>Source = ''a.png''\<rparr>\<rparr>,
         \<lparr>TilesetTile_ID = 1, TilesetTile_Image = Some \<lparr>Source = ''b.png''\<rparr>\<rparr>]\<rparr>"

definition tileOf :: "Tileset \<Rightarrow> uint32 \<Rightarrow> LayerTile" where
  "tileOf ts i =
     \<lparr>ID = i, Tileset = Some ts, HorizontalFlip = False, VerticalFlip = False,
      DiagonalFlip = False, Nil = False\<rparr>"

definition atlasLayer :: Layer where
  "atlasLayer =
     \<lparr>Tiles = [tileOf atlasTileset 0, tileOf atlasTileset 1,
               tileOf atlasTileset 1, tileOf atlasTileset 0],
      Opacity = 1, Visible = True\<rparr>"

text \<open>A hexagonal map of 2 by 2 tiles with one layer, also held in one group.\<close>

definition hexMap :: "Axis \<Rightarrow> tiled_Map" where
  "hexMap ax =
     \<lparr>Width = 2, Height = 2, TileWidth = 4, TileHeight = 4, HexSideLength = 2,
      Orientation = ''hexagonal'', RenderOrder = ''right-down'', StaggerAxis = ax,
      Layers = [atlasLayer], Groups = [\<lparr>Group_Layers = [atlasLayer]\<rparr>]\<rparr>"

text \<open>The renderer that the constructor returns for the map staggered along X.\<close>

definition hexRenderer :: "(test_img, string) Renderer" where
  "hexRenderer =
     \<lparr>m = hexMap AxisX,
      Result = \<lparr>Pix = replicate 280 0, Stride = 28,
                 Rect = \<lparr>Min_pt = \<lparr>X = 0, Y = 0\<rparr>, Max_pt = \<lparr>X = 7, Y = 10\<rparr>\<rparr>\<rparr>,
      ResultBounds = \<lparr>offsetX = 0, offsetY = 0, limitX = 2, limitY = 2\<rparr>,
      tileCache = Map.empty,
      engine = HexagonalRendererEngine (hexMap AxisX),
      fs = None\<rparr>"

text \<open>The same renderer after panning the viewport by \<open>AddOffset\<close>.\<close>

definition pannedRenderer :: "go_int \<Rightarrow> go_int \<Rightarrow> (test_img, string) Renderer" where
  "pannedRenderer x y = hexRenderer\<lparr>ResultBounds := AddOffset (ResultBounds hexRenderer) x y\<rparr>"

text \<open>The same renderer after narrowing the viewport by \<open>SetLimit\<close>.\<close>

definition narrowedRenderer :: "(test_img, string) Renderer" where
  "narrowedRenderer = hexRenderer\<lparr>ResultBounds := SetLimit (ResultBounds hexRenderer) 1 1\<rparr>"

section \<open>Properties\<close>

subsection \<open>Bounds\<close>

text \<open>
  Claim C7. \<open>SetLimit\<close> sets \<open>limitX\<close> to \<open>x\<close> only if \<open>x \<ge> 1\<close> and \<open>limitY\<close> to \<open>y\<close> only if
  \<open>y \<ge> 1\<close>, each axis on its own: a request of 0 or of a negative value keeps that
  axis's previous limit. The offsets are not touched.
\<close>

theorem SetLimit_per_axis:
  "limitX (SetLimit b x y) = (if 1 \<le>s x then x else limitX b) \<and>
   limitY (SetLimit b x y) = (if 1 \<le>s y then y else limitY b) \<and>
   offsetX (SetLimit b x y) = offsetX b \<and>
   offsetY (SetLimit b x y) = offsetY b"
  by (simp add: SetLimit_def Let_def)

lemma AddOffset_fields:
  "offsetX (AddOffset b x y) = (if offsetX b + x <s 0 then 0 else offsetX b + x)"
  "offsetY (AddOffset b x y) = (if offsetY b + y <s 0 then 0 else offsetY b + y)"
  "limitX (AddOffset b x y) = limitX b"
  "limitY (AddOffset b x y) = limitY b"
  by (simp_all add: AddOffset_def Let_def)

lemma AddOffset_nonneg:
  "0 \<le>s offsetX (AddOffset b x y)" "0 \<le>s offsetY (AddOffset b x y)"
  by (simp_all add: AddOffset_fields word_sless_alt word_sle_eq)

lemma AddOffset_examples:
  "AddOffset \<lparr>offsetX = 0, offsetY = 0, limitX = lx, limitY = ly\<rparr> (- 100) (- 100)
     = \<lparr>offsetX = 0, offsetY = 0, limitX = lx, limitY = ly\<rparr>"
  "AddOffset (AddOffset \<lparr>offsetX = 0, offsetY = 0, limitX = lx, limitY = ly\<rparr> 3 4) 2 1
     = \<lparr>offsetX = 5, offsetY = 5, limitX = lx, limitY = ly\<rparr>"
  by (simp_all add: AddOffset_def Let_def word_sless_alt)

text \<open>
  Claim C8. \<open>AddOffset\<close> adds \<open>x\<close> and \<open>y\<close> to the current offsets (in Go's wrapping
  arithmetic) and replaces a negative sum by 0, so no offset is negative after the call,
  whatever the bounds were before; the limits stay. From offset (0, 0),
  \<open>AddOffset (-100) (-100)\<close> gives offset (0, 0), and two calls accumulate: 3 then 2 along
  X and 4 then 1 along Y give (5, 5).
\<close>

theorem AddOffset_clamps:
  "offsetX (AddOffset b x y) = (if offsetX b + x <s 0 then 0 else offsetX b + x) \<and>
   offsetY (AddOffset b x y) = (if offsetY b + y <s 0 then 0 else offsetY b + y) \<and>
   0 \<le>s offsetX (AddOffset b x y) \<and>
   0 \<le>s offsetY (AddOffset b x y) \<and>
   limitX (AddOffset b x y) = limitX b \<and>
   limitY (AddOffset b x y) = limitY b \<and>
   AddOffset \<lparr>offsetX = 0, offsetY = 0, limitX = lx, limitY = ly\<rparr> (- 100) (- 100)
     = \<lparr>offsetX = 0, offsetY = 0, limitX = lx, limitY = ly\<rparr> \<and>
   AddOffset (AddOffset \<lparr>offsetX = 0, offsetY = 0, limitX = lx, limitY = ly\<rparr> 3 4) 2 1
     = \<lparr>offsetX = 5, offsetY = 5, limitX = lx, limitY = ly\<rparr>"
  using AddOffset_fields [of b x y] AddOffset_nonneg [of b x y] AddOffset_examples [of lx ly]
  by blast

subsection \<open>The hexagonal engine\<close>

lemma image_Rect_origin:
  "0 \<le>s w \<Longrightarrow> 0 \<le>s h \<Longrightarrow>
     image_Rect 0 0 w h = \<lparr>Min_pt = \<lparr>X = 0, Y = 0\<rparr>, Max_pt = \<lparr>X = w, Y = h\<rparr>\<rparr>"
  by (simp add: image_Rect_def signed.not_less [symmetric])

lemma go_div_examples:
  "go_div 2 2 = 1" "go_div 4 2 = 2"
  by (simp_all add: go_div_def signed_divide_int_def)

text \<open>
  Claim C4. For a hexagonal map staggered along X, with
  \<open>addon = (TileWidth - HexSideLength) / 2\<close>, \<open>GetFinalImageSize\<close> returns
  \<open>image.Rect(0, 0, limitX * (TileWidth - addon) + addon, limitY * TileHeight + TileHeight / 2)\<close>;
  staggered along Y, with \<open>addon = (TileHeight - HexSideLength) / 2\<close>, it returns
  \<open>image.Rect(0, 0, limitX * TileWidth + TileWidth / 2, limitY * (TileHeight - addon) + addon)\<close>;
  for any other stagger axis it returns the empty rectangle. Where the two computed
  numbers are not negative (as for positive tile sizes and limits, short of overflow),
  the rectangle starts at the origin and they are its width and its height.
\<close>

theorem GetFinalImageSize_hexagonal:
  "(StaggerAxis em = AxisX \<longrightarrow>
      GetFinalImageSize em bounds =
        image_Rect 0 0
          (limitX bounds * (TileWidth em - go_div (TileWidth em - HexSideLength em) 2)
             + go_div (TileWidth em - HexSideLength em) 2)
          (limitY bounds * TileHeight em + go_div (TileHeight em) 2)) \<and>
   (StaggerAxis em = AxisX \<and>
    0 \<le>s limitX bounds * (TileWidth em - go_div (TileWidth em - HexSideLength em) 2)
             + go_div (TileWidth em - HexSideLength em) 2 \<and>
    0 \<le>s limitY bounds * TileHeight em + go_div (TileHeight em) 2 \<longrightarrow>
      Min_pt (GetFinalImageSize em bounds) = \<lparr>X = 0, Y = 0\<rparr> \<and>
      Dx (GetFinalImageSize em bounds) =
        limitX bounds * (TileWidth em - go_div (TileWidth em - HexSideLength em) 2)
          + go_div (TileWidth em - HexSideLength em) 2 \<and>
      Dy (GetFinalImageSize em bounds) =
        limitY bounds * TileHeight em + go_div (TileHeight em) 2) \<and>
   (StaggerAxis em = AxisY \<longrightarrow>
      GetFinalImageSize em bounds =
        image_Rect 0 0
          (limitX bounds * TileWidth em + go_div (TileWidth em) 2)
          (limitY bounds * (TileHeight em - go_div (TileHeight em - HexSideLength em) 2)
             + go_div (TileHeight em - HexSideLength em) 2)) \<and>
   (StaggerAxis em = AxisY \<and>
    0 \<le>s limitX bounds * TileWidth em + go_div (TileWidth em) 2 \<and>
    0 \<le>s limitY bounds * (TileHeight em - go_div (TileHeight em - HexSideLength em) 2)
             + go_div (TileHeight em - HexSideLength em) 2 \<longrightarrow>
      Min_pt (GetFinalImageSize em bounds) = \<lparr>X = 0, Y = 0\<rparr> \<and>
      Dx (GetFinalImageSize em bounds) = limitX bounds * TileWidth em + go_div (TileWidth em) 2 \<and>
      Dy (GetFinalImageSize em bounds) =
        limitY bounds * (TileHeight em - go_div (TileHeight em - HexSideLength em) 2)
          + go_div (TileHeight em - HexSideLength em) 2) \<and>
   (StaggerAxis em \<noteq> AxisX \<and> StaggerAxis em \<noteq> AxisY \<longrightarrow> GetFinalImageSize em bounds = ZR)"
proof (cases "StaggerAxis em")
  case AxisX
  then show ?thesis
    by (auto simp add: GetFinalImageSize_def Let_def image_Rect_origin Dx_def Dy_def)
next
  case AxisY
  then show ?thesis
    by (auto simp add: GetFinalImageSize_def Let_def image_Rect_origin Dx_def Dy_def)
next
  case (AxisOther s)
  then show ?thesis
    by (simp add: GetFinalImageSize_def)
qed

theorem GetFinalImageSize_hexagonal_witness:
  "StaggerAxis (hexMap AxisX) = AxisX \<and>
   (0::go_int) \<le>s 10 \<and> (0::go_int) \<le>s 10 \<and>
   GetFinalImageSize (hexMap AxisX) \<lparr>offsetX = 0, offsetY = 0, limitX = 3, limitY = 2\<rparr>
     = image_Rect 0 0 10 10 \<and>
   Dx (GetFinalImageSize (hexMap AxisX) \<lparr>offsetX = 0, offsetY = 0, limitX = 3, limitY = 2\<rparr>) = 10 \<and>
   Dy (GetFinalImageSize (hexMap AxisX) \<lparr>offsetX = 0, offsetY = 0, limitX = 3, limitY = 2\<rparr>) = 10 \<and>
   StaggerAxis (hexMap AxisY) = AxisY \<and>
   (0::go_int) \<le>s 14 \<and> (0::go_int) \<le>s 7 \<and>
   GetFinalImageSize (hexMap AxisY) \<lparr>offsetX = 0, offsetY = 0, limitX = 3, limitY = 2\<rparr>
     = image_Rect 0 0 14 7 \<and>
   Dx (GetFinalImageSize (hexMap AxisY) \<lparr>offsetX = 0, offsetY = 0, limitX = 3, limitY = 2\<rparr>) = 14 \<and>
   Dy (GetFinalImageSize (hexMap AxisY) \<lparr>offsetX = 0, offsetY = 0, limitX = 3, limitY = 2\<rparr>) = 7 \<and>
   StaggerAxis (hexMap (AxisOther ''z'')) \<noteq> AxisX \<and>
   StaggerAxis (hexMap (AxisOther ''z'')) \<noteq> AxisY \<and>
   GetFinalImageSize (hexMap (AxisOther ''z'')) \<lparr>offsetX = 0, offsetY = 0, limitX = 3, limitY = 2\<rparr> = ZR"
  using
    GetFinalImageSize_hexagonal [of "hexMap AxisX" "\<lparr>offsetX = 0, offsetY = 0, limitX = 3, limitY = 2\<rparr>"]
    GetFinalImageSize_hexagonal [of "hexMap AxisY" "\<lparr>offsetX = 0, offsetY = 0, limitX = 3, limitY = 2\<rparr>"]
    GetFinalImageSize_hexagonal [of "hexMap (AxisOther ''z'')" "\<lparr>offsetX = 0, offsetY = 0, limitX = 3, limitY = 2\<rparr>"]
  by (simp add: hexMap_def go_div_examples image_Rect_def Dx_def Dy_def word_sle_eq word_sless_alt)

text \<open>
  Claim C5. \<open>RotateTileImage\<close> applies, in this order, a horizontal flip if the
  horizontal flag is set, a vertical flip if the vertical flag is set, and, if the
  diagonal flag is set, a rotation by 90 degrees followed by a horizontal flip. With
  the three flags false the image comes back as it is; with only the diagonal flag set
  the result is the image rotated by 90 degrees and then flipped horizontally.
\<close>

theorem RotateTileImage_order:
  "RotateTileImage ex tile (Some img) =
     Inr (Some ((if DiagonalFlip tile then imaging_FlipH ex \<circ> imaging_Rotate90 ex else id)
                 ((if VerticalFlip tile then imaging_FlipV ex else id)
                   ((if HorizontalFlip tile then imaging_FlipH ex else id) img)))) \<and>
   RotateTileImage ex (tile\<lparr>HorizontalFlip := False, VerticalFlip := False, DiagonalFlip := False\<rparr>)
       (Some img) = Inr (Some img) \<and>
   RotateTileImage ex (tile\<lparr>HorizontalFlip := False, VerticalFlip := False, DiagonalFlip := True\<rparr>)
       (Some img) = Inr (Some (imaging_FlipH ex (imaging_Rotate90 ex img)))"
  by (simp add: RotateTileImage_def imaging_call_def Let_def)

subsection \<open>Rendering\<close>

text \<open>
  Claim C6, amended. \<open>RenderLayer\<close> with an index at or above the number of top-level
  layers, and \<open>RenderGroupLayer\<close> with a group index at or above the number of groups, or
  with an existing group and a layer index at or above the number of that group's
  layers, return the out-of-bounds error and leave the renderer, hence the output buffer,
  as it was.
\<close>

theorem Render_index_too_large:
  "(int (length (Layers (m r))) \<le> sint idx \<longrightarrow>
      RenderLayer ex r idx = (Some ErrOutOfBounds, r)) \<and>
   (int (length (Groups (m r))) \<le> sint groupID \<longrightarrow>
      RenderGroupLayer ex r groupID layerID = (Some ErrOutOfBounds, r)) \<and>
   (0 \<le> sint groupID \<and> sint groupID < int (length (Groups (m r))) \<and>
    int (length (Group_Layers (Groups (m r) ! nat (sint groupID)))) \<le> sint layerID \<longrightarrow>
      RenderGroupLayer ex r groupID layerID = (Some ErrOutOfBounds, r))"
  by (simp add: RenderLayer_def RenderGroupLayer_def Let_def)

lemma hexRenderer_lengths:
  "length (Layers (m hexRenderer)) = 1"
  "length (Groups (m hexRenderer)) = 1"
  "length (Group_Layers (Groups (m hexRenderer) ! 0)) = 1"
  by (simp_all add: hexRenderer_def hexMap_def)

theorem Render_index_too_large_witness:
  "int (length (Layers (m hexRenderer))) \<le> sint (1 :: go_int) \<and>
   RenderLayer test_ext hexRenderer 1 = (Some ErrOutOfBounds, hexRenderer) \<and>
   int (length (Groups (m hexRenderer))) \<le> sint (3 :: go_int) \<and>
   RenderGroupLayer test_ext hexRenderer 3 0 = (Some ErrOutOfBounds, hexRenderer) \<and>
   0 \<le> sint (0 :: go_int) \<and> sint (0 :: go_int) < int (length (Groups (m hexRenderer))) \<and>
   int (length (Group_Layers (Groups (m hexRenderer) ! nat (sint (0 :: go_int))))) \<le> sint (2 :: go_int) \<and>
   RenderGroupLayer test_ext hexRenderer 0 2 = (Some ErrOutOfBounds, hexRenderer)"
  using Render_index_too_large [of hexRenderer 1 test_ext 3 0]
    Render_index_too_large [of hexRenderer 1 test_ext 0 2]
  by (simp add: hexRenderer_lengths)

text \<open>
  Claim C6, as stated: \<open>RenderGroupLayer\<close> with either index out of range returns the
  out-of-bounds error. It fails for an index below zero, which is out of range too: on
  the example renderer, with one group of one layer, the group index -1 (with the layer
  index 0 or 5) and the layer index -2 in the existing group 0 do not give the
  out-of-bounds error, the call panics at the slice access.
\<close>

theorem RenderGroupLayer_negative_index_counterexample:
  "RenderGroupLayer test_ext hexRenderer (- 1) 0 = (Some PanicIndexOutOfRange, hexRenderer) \<and>
   RenderGroupLayer test_ext hexRenderer (- 1) 0 \<noteq> (Some ErrOutOfBounds, hexRenderer) \<and>
   RenderGroupLayer test_ext hexRenderer (- 1) 5 = (Some PanicIndexOutOfRange, hexRenderer) \<and>
   RenderGroupLayer test_ext hexRenderer (- 1) 5 \<noteq> (Some ErrOutOfBounds, hexRenderer) \<and>
   RenderGroupLayer test_ext hexRenderer 0 (- 2) = (Some PanicIndexOutOfRange, hexRenderer) \<and>
   RenderGroupLayer test_ext hexRenderer 0 (- 2) \<noteq> (Some ErrOutOfBounds, hexRenderer)"
  by (simp add: RenderGroupLayer_def Let_def hexRenderer_lengths)

text \<open>
  Claim C9. A negative index is not reported as out of bounds: the guards only compare
  with the length from above, so \<open>RenderLayer\<close> with a negative index, and
  \<open>RenderGroupLayer\<close> with a negative group index or with an existing group and a
  negative layer index, reach the slice access, which panics.
\<close>

theorem Render_negative_index_panics:
  "(sint idx < 0 \<longrightarrow>
      RenderLayer ex r idx = (Some PanicIndexOutOfRange, r) \<and>
      RenderLayer ex r idx \<noteq> (Some ErrOutOfBounds, r)) \<and>
   (sint groupID < 0 \<longrightarrow>
      RenderGroupLayer ex r groupID layerID = (Some PanicIndexOutOfRange, r) \<and>
      RenderGroupLayer ex r groupID layerID \<noteq> (Some ErrOutOfBounds, r)) \<and>
   (0 \<le> sint groupID \<and> sint groupID < int (length (Groups (m r))) \<and> sint layerID < 0 \<longrightarrow>
      RenderGroupLayer ex r groupID layerID = (Some PanicIndexOutOfRange, r) \<and>
      RenderGroupLayer ex r groupID layerID \<noteq> (Some ErrOutOfBounds, r))"
  by (simp add: RenderLayer_def RenderGroupLayer_def Let_def)

theorem Render_negative_index_panics_witness:
  "sint (- 1 :: go_int) < 0 \<and>
   RenderLayer test_ext hexRenderer (- 1) = (Some PanicIndexOutOfRange, hexRenderer) \<and>
   RenderGroupLayer test_ext hexRenderer (- 1) 0 = (Some PanicIndexOutOfRange, hexRenderer) \<and>
   0 \<le> sint (0 :: go_int) \<and> sint (0 :: go_int) < int (length (Groups (m hexRenderer))) \<and>
   RenderGroupLayer test_ext hexRenderer 0 (- 1) = (Some PanicIndexOutOfRange, hexRenderer)"
  using Render_negative_index_panics [of "- 1" test_ext hexRenderer "- 1" 0]
    Render_negative_index_panics [of "- 1" test_ext hexRenderer 0 "- 1"]
  by (simp add: hexRenderer_lengths)

lemma renderRow_done:
  "\<not> x <s xe \<Longrightarrow> renderRow ex layer xs xe ys y startOdd x r = (None, r)"
  by (subst renderRow.simps) simp

lemma renderRows_done:
  "\<not> y <s ye \<Longrightarrow> renderRows ex layer xs xe ys ye startOdd y r = (None, r)"
  by (subst renderRows.simps) simp

lemma renderRows_no_columns:
  "\<not> xs <s xe \<Longrightarrow> renderRows ex layer xs xe ys ye startOdd y r = (None, r)"
proof (induction ex layer xs xe ys ye startOdd y r rule: renderRows.induct)
  case (1 ex layer xs xe ys ye startOdd y r)
  show ?case
  proof (cases "y <s ye")
    case True
    have row: "renderRow ex layer xs xe ys y startOdd xs r = (None, r)"
      using "1.prems" by (rule renderRow_done)
    have "renderRows ex layer xs xe ys ye startOdd (y + 1) r = (None, r)"
      using "1.IH" [OF True row [symmetric] refl] "1.prems" by simp
    then show ?thesis
      using True row by (subst renderRows.simps) simp
  next
    case False
    then show ?thesis by (rule renderRows_done)
  qed
qed


lemma renderLayer_viewport_beyond_map:
  assumes "Orientation (m r) = ''hexagonal'' \<or> Orientation (m r) = ''orthogonal''"
    and "RenderOrder (m r) = ''right-down''"
    and "Width (m r) \<le>s offsetX (ResultBounds r) \<or> Height (m r) \<le>s offsetY (ResultBounds r)"
  shows "renderLayer ex r layer = (None, r)"
proof -
  let ?xs = "offsetX (ResultBounds r)"
  let ?xe0 = "offsetX (ResultBounds r) + limitX (ResultBounds r)"
  let ?xe = "if Width (m r) <s ?xe0 then Width (m r) else ?xe0"
  let ?ys = "offsetY (ResultBounds r)"
  let ?ye0 = "offsetY (ResultBounds r) + limitY (ResultBounds r)"
  let ?ye = "if Height (m r) <s ?ye0 then Height (m r) else ?ye0"
  let ?so = "go_mod (offsetY (ResultBounds r)) 2 = 1"
  have unfold: "renderLayer ex r layer = renderRows ex layer ?xs ?xe ?ys ?ye ?so ?ys r"
    using assms(1,2) by (simp add: renderLayer_def Let_def)
  from assms(3) show ?thesis
  proof
    assume "Width (m r) \<le>s ?xs"
    moreover have "?xe \<le>s Width (m r)"
      by (simp add: signed.not_less)
    ultimately have "\<not> ?xs <s ?xe"
      using signed.order_trans signed.not_less by blast
    then show ?thesis
      unfolding unfold by (rule renderRows_no_columns)
  next
    assume "Height (m r) \<le>s ?ys"
    moreover have "?ye \<le>s Height (m r)"
      by (simp add: signed.not_less)
    ultimately have "\<not> ?ys <s ?ye"
      using signed.order_trans signed.not_less by blast
    then show ?thesis
      unfolding unfold by (rule renderRows_done)
  qed
qed

text \<open>
  Claim C10. On a hexagonal or orthogonal map with render order right-down, when the
  viewport offset lies at or beyond the map's width or height, \<open>RenderLayer\<close> on an
  existing layer returns no error and leaves the renderer as it was: output buffer and
  tile cache are untouched, since no tile is resolved or drawn.
\<close>

theorem RenderLayer_viewport_beyond_map:
  assumes "Orientation (m r) = ''hexagonal'' \<or> Orientation (m r) = ''orthogonal''"
    and "RenderOrder (m r) = ''right-down''"
    and "0 \<le> sint idx" and "sint idx < int (length (Layers (m r)))"
    and "Width (m r) \<le>s offsetX (ResultBounds r) \<or> Height (m r) \<le>s offsetY (ResultBounds r)"
  shows "RenderLayer ex r idx = (None, r)"
  using assms(3,4) renderLayer_viewport_beyond_map [OF assms(1,2,5)]
  by (simp add: RenderLayer_def)

lemma pannedRenderer_fields:
  "m (pannedRenderer x y) = hexMap AxisX"
  "ResultBounds (pannedRenderer 2 0) = \<lparr>offsetX = 2, offsetY = 0, limitX = 2, limitY = 2\<rparr>"
  "ResultBounds (pannedRenderer 0 5) = \<lparr>offsetX = 0, offsetY = 5, limitX = 2, limitY = 2\<rparr>"
  by (simp_all add: pannedRenderer_def hexRenderer_def AddOffset_def Let_def word_sless_alt)

theorem RenderLayer_viewport_beyond_map_witness:
  "(Orientation (m (pannedRenderer 2 0)) = ''hexagonal'' \<or> Orientation (m (pannedRenderer 2 0)) = ''orthogonal'') \<and>
   RenderOrder (m (pannedRenderer 2 0)) = ''right-down'' \<and>
   0 \<le> sint (0 :: go_int) \<and> sint (0 :: go_int) < int (length (Layers (m (pannedRenderer 2 0)))) \<and>
   Width (m (pannedRenderer 2 0)) \<le>s offsetX (ResultBounds (pannedRenderer 2 0)) \<and>
   RenderLayer test_ext (pannedRenderer 2 0) 0 = (None, pannedRenderer 2 0) \<and>
   Height (m (pannedRenderer 0 5)) \<le>s offsetY (ResultBounds (pannedRenderer 0 5)) \<and>
   RenderLayer test_ext (pannedRenderer 0 5) 0 = (None, pannedRenderer 0 5)"
  using RenderLayer_viewport_beyond_map [of "pannedRenderer 2 0" 0 test_ext]
    RenderLayer_viewport_beyond_map [of "pannedRenderer 0 5" 0 test_ext]
  by (simp add: pannedRenderer_fields hexMap_def word_sle_eq)


subsection \<open>Stagger parity under panning\<close>

lemma go_mod_examples:
  "go_mod 0 2 = 0" "go_mod 1 2 = 1"
  by (simp_all add: go_mod_def signed_modulo_int_def)

lemma go_mod_2_nonneg:
  assumes "0 \<le> sint v"
  shows "go_mod v 2 = (if even (sint v) then 0 else 1)"
proof -
  have "sint v smod 2 = sint v mod 2"
    using assms by (cases "sint v = 0") (simp_all add: signed_modulo_int_def)
  moreover have "sint v mod 2 = (if even (sint v) then 0 else 1)"
    by presburger
  ultimately show ?thesis
    by (simp add: go_mod_def)
qed

lemma sint_diff_nonneg:
  fixes y oy :: go_int
  assumes "0 \<le>s oy" and "oy \<le>s y"
  shows "sint (y - oy) = sint y - sint oy"
proof -
  have a: "0 \<le> sint oy" "sint oy \<le> sint y"
    using assms by (simp_all add: word_sle_eq)
  have b: "sint y < 2 ^ 63" using sint_lt [of y] by simp
  have "sint (y - oy) = signed_take_bit 63 (sint y - sint oy)"
    by (simp add: sint_word_ariths)
  also have "\<dots> = sint y - sint oy"
    using a b by (simp add: signed_take_bit_int_eq_self)
  finally show ?thesis .
qed

lemma xBump_anchored:
  assumes "0 \<le>s oy" and "oy \<le>s y"
  shows "xBump em (y - oy) (go_mod oy 2 = 1) = xBump em y (go_mod 0 2 = 1)"
proof -
  have a: "0 \<le> sint oy" "sint oy \<le> sint y"
    using assms by (simp_all add: word_sle_eq)
  have d: "sint (y - oy) = sint y - sint oy"
    using assms by (rule sint_diff_nonneg)
  have "go_mod (y - oy) 2 = (if even (sint y - sint oy) then 0 else 1)"
    using go_mod_2_nonneg [of "y - oy"] a d by simp
  moreover have "go_mod oy 2 = (if even (sint oy) then 0 else 1)"
    using go_mod_2_nonneg [of oy] a by simp
  moreover have "go_mod y 2 = (if even (sint y) then 0 else 1)"
    using go_mod_2_nonneg [of y] a by simp
  ultimately show ?thesis
    by (simp add: xBump_def oddCheckValue_def go_mod_examples)
qed


lemma render_viewport_at_origin:
  "Pix (Result (snd (RenderLayer test_ext
      (hexRenderer\<lparr>ResultBounds := SetLimit (ResultBounds hexRenderer) 2 1\<rparr>) 0)))
   = replicate 280 0 @ [0, 0, 3, 2]"
  by (simp add: RenderLayer_def renderLayer_def renderRows.simps renderRow.simps renderTile_def
      getTileImage_def cropTiles.simps hexRenderer_def hexMap_def atlasLayer_def atlasTileset_def tileOf_def test_ext_def test_draw_def
      SetLimit_def Let_def IsNil_def open_file_def to_uint32_def
      engine_RotateTileImage_def engine_GetTilePosition_def RotateTileImage_def GetTilePosition_def
      yBump_def oddCheckValue_def image_Rect_def
      go_div_examples go_mod_examples word_sless_alt word_sle_eq)

lemma render_viewport_at_column_1:
  "Pix (Result (snd (RenderLayer test_ext
      (hexRenderer\<lparr>ResultBounds := AddOffset (SetLimit (ResultBounds hexRenderer) 1 1) 1 0\<rparr>) 0)))
   = replicate 280 0 @ [0, 0]"
  by (simp add: RenderLayer_def renderLayer_def renderRows.simps renderRow.simps renderTile_def
      getTileImage_def cropTiles.simps hexRenderer_def hexMap_def atlasLayer_def atlasTileset_def tileOf_def test_ext_def test_draw_def
      AddOffset_def SetLimit_def Let_def IsNil_def open_file_def to_uint32_def
      engine_RotateTileImage_def engine_GetTilePosition_def RotateTileImage_def GetTilePosition_def
      yBump_def oddCheckValue_def image_Rect_def
      go_div_examples go_mod_examples word_sless_alt word_sle_eq)

text \<open>
  Claim C2: on a hexagonal map, for every viewport offset and both stagger axes, the
  bump chosen for a tile is the one a viewport at offset (0, 0) chooses for the same map
  row or column. \<open>renderLayer\<close> passes viewport-relative coordinates and
  \<open>startOdd = (offsetY mod 2 = 1)\<close> to \<open>GetTilePosition\<close>. For stagger axis Y this holds
  (\<open>xBump_anchored\<close>). For stagger axis X the code does not do it, the column parity
  being taken against the parity of the Y offset: on the example map the tile of map
  column 1 is drawn with its origin at (3, 2), bumped by half a tile height, from a
  viewport at (0, 0), and with its origin at (0, 0), not bumped, from a viewport that
  starts at column 1.
\<close>

theorem stagger_X_parity_follows_offsetY:
  "Pix (Result (snd (RenderLayer test_ext
      (hexRenderer\<lparr>ResultBounds := SetLimit (ResultBounds hexRenderer) 2 1\<rparr>) 0)))
     = replicate 280 0 @ [0, 0, 3, 2] \<and>
   Pix (Result (snd (RenderLayer test_ext
      (hexRenderer\<lparr>ResultBounds := AddOffset (SetLimit (ResultBounds hexRenderer) 1 1) 1 0\<rparr>) 0)))
     = replicate 280 0 @ [0, 0] \<and>
   yBump (hexMap AxisX) (1 - 0) (go_mod 0 2 = 1) = 2 \<and>
   yBump (hexMap AxisX) (1 - 1) (go_mod 0 2 = 1) = 0"
  using render_viewport_at_origin render_viewport_at_column_1
  by (simp add: yBump_def oddCheckValue_def hexMap_def go_mod_examples go_div_examples)

subsection \<open>The output buffer\<close>

lemma NewRenderer_hexRenderer: "NewRenderer test_ext (hexMap AxisX) = Inr hexRenderer"
  by (simp add: NewRenderer_def NewRendererWithFileSystem_def Clear_def hexMap_def hexRenderer_def
      engine_GetFinalImageSize_def GetFinalImageSize_def NewNRGBA_def Let_def go_div_examples
      image_Rect_def Dx_def Dy_def word_sless_alt test_ext_def)

text \<open>
  Claim C3, as stated: whenever the bounds change through \<open>SetLimit\<close> or \<open>AddOffset\<close>
  the output buffer is reallocated to the engine's final image size of the new bounds.
  It fails: on the renderer the constructor returns for the example map, \<open>SetLimit 1 1\<close>
  changes the limits, the final image size of the new bounds is 4 by 6, and the buffer
  still has its 7 by 10.
\<close>

theorem SetLimit_keeps_buffer_counterexample:
  "NewRenderer test_ext (hexMap AxisX) = Inr hexRenderer \<and>
   limitX (SetLimit (ResultBounds hexRenderer) 1 1) \<noteq> limitX (ResultBounds hexRenderer) \<and>
   Dx (Rect (Result (hexRenderer\<lparr>ResultBounds := SetLimit (ResultBounds hexRenderer) 1 1\<rparr>))) = 7 \<and>
   Dy (Rect (Result (hexRenderer\<lparr>ResultBounds := SetLimit (ResultBounds hexRenderer) 1 1\<rparr>))) = 10 \<and>
   Dx (engine_GetFinalImageSize test_ext (engine hexRenderer)
         (SetLimit (ResultBounds hexRenderer) 1 1)) = 4 \<and>
   Dy (engine_GetFinalImageSize test_ext (engine hexRenderer)
         (SetLimit (ResultBounds hexRenderer) 1 1)) = 6"
  using NewRenderer_hexRenderer
  by (simp add: hexRenderer_def hexMap_def SetLimit_def Let_def engine_GetFinalImageSize_def
      GetFinalImageSize_def go_div_examples image_Rect_def Dx_def Dy_def word_sless_alt word_sle_eq)

lemma NewNRGBA_Inr:
  "NewNRGBA rc = Inr buf \<Longrightarrow>
     Rect buf = rc \<and> Stride buf = 4 * Dx rc \<and>
     Pix buf = replicate (nat (4 * sint (Dx rc) * sint (Dy rc))) 0 \<and>
     0 \<le> sint (Dx rc) \<and> 0 \<le> sint (Dy rc)"
  by (auto simp add: NewNRGBA_def split: if_splits)

text \<open>
  Claim C3, amended. \<open>SetLimit\<close> and \<open>AddOffset\<close> are methods of the bounds alone and
  leave the output buffer as it is. \<open>Clear\<close>, when it returns, replaces the buffer by a
  new one whose rectangle is the engine's final image size of the current bounds and
  whose pixel bytes are all zero, and changes nothing else of the renderer.
\<close>

theorem buffer_reallocated_by_Clear_only:
  "Result (r\<lparr>ResultBounds := SetLimit (ResultBounds r) x y\<rparr>) = Result r \<and>
   Result (r\<lparr>ResultBounds := AddOffset (ResultBounds r) x y\<rparr>) = Result r \<and>
   (Clear ex r = Inr r' \<longrightarrow>
      Rect (Result r') = engine_GetFinalImageSize ex (engine r) (ResultBounds r) \<and>
      Pix (Result r') = replicate (nat (4 * sint (Dx (Rect (Result r'))) * sint (Dy (Rect (Result r'))))) 0 \<and>
      Stride (Result r') = 4 * Dx (Rect (Result r')) \<and>
      r' = r\<lparr>Result := Result r'\<rparr>)"
proof -
  have "Clear ex r = Inr r' \<longrightarrow>
      Rect (Result r') = engine_GetFinalImageSize ex (engine r) (ResultBounds r) \<and>
      Pix (Result r') = replicate (nat (4 * sint (Dx (Rect (Result r'))) * sint (Dy (Rect (Result r'))))) 0 \<and>
      Stride (Result r') = 4 * Dx (Rect (Result r')) \<and>
      r' = r\<lparr>Result := Result r'\<rparr>"
  proof
    assume c: "Clear ex r = Inr r'"
    then obtain buf where
      buf: "NewNRGBA (engine_GetFinalImageSize ex (engine r) (ResultBounds r)) = Inr buf"
      and r': "r' = r\<lparr>Result := buf\<rparr>"
      by (auto simp add: Clear_def split: sum.splits)
    from NewNRGBA_Inr [OF buf] r' show
      "Rect (Result r') = engine_GetFinalImageSize ex (engine r) (ResultBounds r) \<and>
       Pix (Result r') = replicate (nat (4 * sint (Dx (Rect (Result r'))) * sint (Dy (Rect (Result r'))))) 0 \<and>
       Stride (Result r') = 4 * Dx (Rect (Result r')) \<and>
       r' = r\<lparr>Result := Result r'\<rparr>"
      by simp
  qed
  then show ?thesis by simp
qed

theorem buffer_reallocated_by_Clear_only_witness:
  "Clear test_ext narrowedRenderer =
     Inr (narrowedRenderer\<lparr>Result := \<lparr>Pix = replicate 96 0, Stride = 16,
            Rect = \<lparr>Min_pt = \<lparr>X = 0, Y = 0\<rparr>, Max_pt = \<lparr>X = 4, Y = 6\<rparr>\<rparr>\<rparr>\<rparr>) \<and>
   Rect (Result (narrowedRenderer\<lparr>Result := \<lparr>Pix = replicate 96 0, Stride = 16,
            Rect = \<lparr>Min_pt = \<lparr>X = 0, Y = 0\<rparr>, Max_pt = \<lparr>X = 4, Y = 6\<rparr>\<rparr>\<rparr>\<rparr>))
     = engine_GetFinalImageSize test_ext (engine narrowedRenderer) (ResultBounds narrowedRenderer)"
proof -
  have c: "Clear test_ext narrowedRenderer =
     Inr (narrowedRenderer\<lparr>Result := \<lparr>Pix = replicate 96 0, Stride = 16,
            Rect = \<lparr>Min_pt = \<lparr>X = 0, Y = 0\<rparr>, Max_pt = \<lparr>X = 4, Y = 6\<rparr>\<rparr>\<rparr>\<rparr>)"
    by (simp add: narrowedRenderer_def Clear_def hexMap_def hexRenderer_def SetLimit_def
      engine_GetFinalImageSize_def GetFinalImageSize_def NewNRGBA_def Let_def go_div_examples
      image_Rect_def Dx_def Dy_def word_sless_alt word_sle_eq test_ext_def)
  with buffer_reallocated_by_Clear_only [of narrowedRenderer 1 1 test_ext
      "narrowedRenderer\<lparr>Result := \<lparr>Pix = replicate 96 0, Stride = 16,
            Rect = \<lparr>Min_pt = \<lparr>X = 0, Y = 0\<rparr>, Max_pt = \<lparr>X = 4, Y = 6\<rparr>\<rparr>\<rparr>\<rparr>"]
  show ?thesis by simp
qed


subsection \<open>The tile cache\<close>

lemma word_succ_le_iff:
  fixes i j n :: uint32
  assumes "i < n"
  shows "(i + 1 \<le> j) = (i < j)"
proof -
  from assms have "i \<noteq> - 1"
    by (metis word_order.extremum_strict)
  then have "1 + i \<noteq> 0"
    by (simp add: add_eq_0_iff)
  then have "unat (i + 1) = Suc (unat i)"
    using unatSuc [of i] by (simp add: add.commute)
  then show ?thesis
    by (simp add: word_le_nat_alt word_less_nat_alt) arith
qed

lemma cropTiles_result:
  "cropTiles ex ts tile img n i timg r =
     ((if i \<le> ID tile \<and> ID tile < n
       then Some (imaging_Crop ex img (GetTileRect ex ts (ID tile))) else timg),
      r\<lparr>tileCache := (\<lambda>k. if i \<le> k - FirstGID ts \<and> k - FirstGID ts < n
                          then Some (imaging_Crop ex img (GetTileRect ex ts (k - FirstGID ts)))
                          else tileCache r k)\<rparr>)"
proof (induction ex ts tile img n i timg r rule: cropTiles.induct)
  case (1 ex ts tile img n i timg r)
  show ?case
  proof (cases "i < n")
    case False
    then have none: "\<And>k. (i \<le> k \<and> k < n) = False" by auto
    have "cropTiles ex ts tile img n i timg r = (timg, r)"
      using False by (subst cropTiles.simps) simp
    then show ?thesis
      by (simp add: none)
  next
    case True
    let ?c = "imaging_Crop ex img (GetTileRect ex ts i)"
    let ?r1 = "r\<lparr>tileCache := (tileCache r)(i + FirstGID ts \<mapsto> ?c)\<rparr>"
    let ?t1 = "if ID tile = i then tileCache ?r1 (i + FirstGID ts) else timg"
    have step: "cropTiles ex ts tile img n i timg r = cropTiles ex ts tile img n (i + 1) ?t1 ?r1"
      using True by (subst cropTiles.simps) (simp only: Let_def if_True)
    have ih: "cropTiles ex ts tile img n (i + 1) ?t1 ?r1 =
       ((if i + 1 \<le> ID tile \<and> ID tile < n
         then Some (imaging_Crop ex img (GetTileRect ex ts (ID tile))) else ?t1),
        ?r1\<lparr>tileCache := (\<lambda>k. if i + 1 \<le> k - FirstGID ts \<and> k - FirstGID ts < n
                          then Some (imaging_Crop ex img (GetTileRect ex ts (k - FirstGID ts)))
                          else tileCache ?r1 k)\<rparr>)"
      by (rule "1.IH" [OF True refl refl])
    have le: "\<And>j. (i + 1 \<le> j) = (i < j)"
      using True by (rule word_succ_le_iff)
    have key: "\<And>k. (k = i + FirstGID ts) = (k - FirstGID ts = i)"
      by auto
    have img_eq: "(if i + 1 \<le> ID tile \<and> ID tile < n
         then Some (imaging_Crop ex img (GetTileRect ex ts (ID tile))) else ?t1)
       = (if i \<le> ID tile \<and> ID tile < n
       then Some (imaging_Crop ex img (GetTileRect ex ts (ID tile))) else timg)"
      using True by (auto simp add: le)
    have cache_eq: "(\<lambda>k. if i + 1 \<le> k - FirstGID ts \<and> k - FirstGID ts < n
                          then Some (imaging_Crop ex img (GetTileRect ex ts (k - FirstGID ts)))
                          else tileCache ?r1 k)
       = (\<lambda>k. if i \<le> k - FirstGID ts \<and> k - FirstGID ts < n
                          then Some (imaging_Crop ex img (GetTileRect ex ts (k - FirstGID ts)))
                          else tileCache r k)"
    proof
      fix k
      show "(if i + 1 \<le> k - FirstGID ts \<and> k - FirstGID ts < n
                          then Some (imaging_Crop ex img (GetTileRect ex ts (k - FirstGID ts)))
                          else tileCache ?r1 k)
       = (if i \<le> k - FirstGID ts \<and> k - FirstGID ts < n
                          then Some (imaging_Crop ex img (GetTileRect ex ts (k - FirstGID ts)))
                          else tileCache r k)"
        using True by (auto simp add: le key)
    qed
    show ?thesis
      unfolding step ih img_eq cache_eq by simp
  qed
qed


lemma loadTiles_frame:
  "loadTiles ex ts tile tiles timg r = (e, timg', r') \<Longrightarrow>
     r' = r\<lparr>tileCache := tileCache r'\<rparr> \<and>
     (\<forall>k. k \<noteq> FirstGID ts + ID tile \<longrightarrow> tileCache r' k = tileCache r k)"
proof (induction tiles arbitrary: timg r)
  case Nil
  then show ?case by simp
next
  case (Cons t rest)
  show ?case
  proof (cases "TilesetTile_ID t = ID tile")
    case False
    with Cons.prems have "loadTiles ex ts tile rest timg r = (e, timg', r')" by simp
    then show ?thesis by (rule Cons.IH)
  next
    case True
    show ?thesis
    proof (cases "TilesetTile_Image t")
      case None
      with True Cons.prems show ?thesis by simp
    next
      case (Some im)
      show ?thesis
      proof (cases "open_file ex r (GetFileFullPath ex ts (Source im))")
        case (Inl e1)
        with True Some Cons.prems show ?thesis by simp
      next
        case (Inr sf)
        show ?thesis
        proof (cases "image_Decode ex sf")
          case (Inl e2)
          with True Some Inr Cons.prems show ?thesis by simp
        next
          case decoded: (Inr d)
          let ?r1 = "r\<lparr>tileCache := (tileCache r)(FirstGID ts + ID tile \<mapsto> d)\<rparr>"
          from True Some Inr decoded Cons.prems
          have "loadTiles ex ts tile rest (Some d) ?r1 = (e, timg', r')" by simp
          from Cons.IH [OF this]
          have a: "r' = ?r1\<lparr>tileCache := tileCache r'\<rparr>"
            and b: "\<forall>k. k \<noteq> FirstGID ts + ID tile \<longrightarrow> tileCache r' k = tileCache ?r1 k"
            by blast+
          from a have "r' = r\<lparr>tileCache := tileCache r'\<rparr>" by simp
          moreover from b have "\<forall>k. k \<noteq> FirstGID ts + ID tile \<longrightarrow> tileCache r' k = tileCache r k"
            by simp
          ultimately show ?thesis by blast
        qed
      qed
    qed
  qed
qed

lemma loadTiles_loaded:
  "loadTiles ex ts tile tiles timg r = (None, timg', r') \<Longrightarrow>
     (\<exists>t \<in> set tiles. TilesetTile_ID t = ID tile)
       \<or> (timg \<noteq> None \<and> tileCache r (FirstGID ts + ID tile) = timg) \<Longrightarrow>
     timg' \<noteq> None \<and> tileCache r' (FirstGID ts + ID tile) = timg'"
proof (induction tiles arbitrary: timg r)
  case Nil
  then show ?case by simp
next
  case (Cons t rest)
  show ?case
  proof (cases "TilesetTile_ID t = ID tile")
    case False
    with Cons.prems(1) have run: "loadTiles ex ts tile rest timg r = (None, timg', r')" by simp
    from False Cons.prems(2)
    have "(\<exists>t \<in> set rest. TilesetTile_ID t = ID tile)
       \<or> (timg \<noteq> None \<and> tileCache r (FirstGID ts + ID tile) = timg)" by auto
    with run show ?thesis by (rule Cons.IH)
  next
    case True
    from True Cons.prems(1) obtain im sf d where
      "TilesetTile_Image t = Some im"
      "open_file ex r (GetFileFullPath ex ts (Source im)) = Inr sf"
      "image_Decode ex sf = Inr d"
      and run: "loadTiles ex ts tile rest (Some d)
             (r\<lparr>tileCache := (tileCache r)(FirstGID ts + ID tile \<mapsto> d)\<rparr>) = (None, timg', r')"
      by (auto split: option.splits sum.splits)
    show ?thesis
      by (rule Cons.IH [OF run]) simp
  qed
qed


lemma getTileImage_atlas:
  assumes "Tileset tile = Some ts" and "tileCache r (FirstGID ts + ID tile) = None"
    and "Tileset_Image ts = Some im"
    and "open_file ex r (GetFileFullPath ex ts (Source im)) = Inr sf"
    and "image_Decode ex sf = Inr img"
  shows "tileCache (snd (getTileImage ex r tile)) =
     (\<lambda>k. if k - FirstGID ts < to_uint32 (TileCount ts)
          then Some (imaging_Crop ex img (GetTileRect ex ts (k - FirstGID ts)))
          else tileCache r k)"
  using assms by (simp add: getTileImage_def cropTiles_result)

lemma getTileImage_collection:
  assumes "Tileset tile = Some ts" and "tileCache r (FirstGID ts + ID tile) = None"
    and "Tileset_Image ts = None"
  shows "\<forall>k. k \<noteq> FirstGID ts + ID tile \<longrightarrow> tileCache (snd (getTileImage ex r tile)) k = tileCache r k"
    and "(\<exists>t \<in> set (Tileset_Tiles ts). TilesetTile_ID t = ID tile) \<Longrightarrow>
         fst (getTileImage ex r tile) = Inr v \<Longrightarrow>
         tileCache (snd (getTileImage ex r tile)) (FirstGID ts + ID tile) \<noteq> None"
proof -
  obtain e timg' r' where run: "loadTiles ex ts tile (Tileset_Tiles ts) None r = (e, timg', r')"
    by (metis prod_cases3)
  have out: "snd (getTileImage ex r tile) = r'"
    using assms run by (cases e) (simp_all add: getTileImage_def)
  from loadTiles_frame [OF run]
  show "\<forall>k. k \<noteq> FirstGID ts + ID tile \<longrightarrow> tileCache (snd (getTileImage ex r tile)) k = tileCache r k"
    unfolding out by blast
  assume found: "\<exists>t \<in> set (Tileset_Tiles ts). TilesetTile_ID t = ID tile"
    and ok: "fst (getTileImage ex r tile) = Inr v"
  have "e = None"
    using assms run ok by (cases e) (simp_all add: getTileImage_def)
  with run found loadTiles_loaded [of ex ts tile "Tileset_Tiles ts" None r timg' r']
  have "timg' \<noteq> None \<and> tileCache r' (FirstGID ts + ID tile) = timg'"
    by blast
  then show "tileCache (snd (getTileImage ex r tile)) (FirstGID ts + ID tile) \<noteq> None"
    unfolding out by auto
qed

lemma loadTiles_filter:
  "loadTiles ex ts tile tiles timg r =
     loadTiles ex ts tile (filter (\<lambda>t. TilesetTile_ID t = ID tile) tiles) timg r"
proof (induction tiles arbitrary: timg r)
  case Nil
  show ?case by simp
next
  case (Cons t rest)
  show ?case
  proof (cases "TilesetTile_ID t = ID tile")
    case False
    then show ?thesis using Cons.IH [of timg r] by simp
  next
    case True
    then show ?thesis
      by (simp add: Cons.IH [symmetric] split: option.splits sum.splits)
  qed
qed

lemma getTileImage_collection_filter:
  assumes "Tileset tile = Some ts" and "tileCache r (FirstGID ts + ID tile) = None"
    and "Tileset_Image ts = None"
  shows "getTileImage ex r tile =
     (case loadTiles ex ts tile
             (filter (\<lambda>t. TilesetTile_ID t = ID tile) (Tileset_Tiles ts)) None r of
        (Some e, timg, r') \<Rightarrow> (Inl e, r')
      | (None, timg, r') \<Rightarrow> (engine_RotateTileImage ex (engine r') tile timg, r'))"
proof -
  have "loadTiles ex ts tile (Tileset_Tiles ts) None r =
     loadTiles ex ts tile (filter (\<lambda>t. TilesetTile_ID t = ID tile) (Tileset_Tiles ts)) None r"
    by (rule loadTiles_filter)
  with assms show ?thesis
    by (simp add: getTileImage_def)
qed

lemma getTileImage_collection_none:
  assumes "Tileset tile = Some ts" and "tileCache r (FirstGID ts + ID tile) = None"
    and "Tileset_Image ts = None"
    and "filter (\<lambda>t. TilesetTile_ID t = ID tile) (Tileset_Tiles ts) = []"
  shows "getTileImage ex r tile = (engine_RotateTileImage ex (engine r) tile None, r)"
  using getTileImage_collection_filter [OF assms(1,2,3), of ex] assms(4) by simp

lemma getTileImage_collection_single:
  assumes "Tileset tile = Some ts" and "tileCache r (FirstGID ts + ID tile) = None"
    and "Tileset_Image ts = None"
    and "filter (\<lambda>t. TilesetTile_ID t = ID tile) (Tileset_Tiles ts) = [t]"
  shows "getTileImage ex r tile =
     (case TilesetTile_Image t of
        None \<Rightarrow> (Inl PanicNilDereference, r)
      | Some im \<Rightarrow>
          (case open_file ex r (GetFileFullPath ex ts (Source im)) of
             Inl e \<Rightarrow> (Inl e, r)
           | Inr sf \<Rightarrow>
               (case image_Decode ex sf of
                  Inl e \<Rightarrow> (Inl e, r)
                | Inr d \<Rightarrow>
                    (engine_RotateTileImage ex (engine r) tile (Some d),
                     r\<lparr>tileCache := (tileCache r)(FirstGID ts + ID tile \<mapsto> d)\<rparr>))))"
proof -
  have "t \<in> set (filter (\<lambda>t. TilesetTile_ID t = ID tile) (Tileset_Tiles ts))"
    using assms(4) by simp
  then have "TilesetTile_ID t = ID tile" by simp
  then show ?thesis
    using getTileImage_collection_filter [OF assms(1,2,3), of ex] assms(4)
    by (simp split: option.splits sum.splits)
qed


text \<open>
  Claim C1, amended. On a cache miss, for a tileset with a shared image that opens and
  decodes, every index \<open>i\<close> below \<open>uint32(TileCount)\<close> is cropped and cached under
  \<open>FirstGID + i\<close>, and no other key changes. For a tileset of separate images the tiles
  whose ID differs from the requested tile's take no part: the call returns the result
  and leaves the cache of the loading loop run over the tiles of the requested ID alone,
  and changes no key other than \<open>FirstGID + ID\<close> of the requested tile. With no tile of
  that ID the cache is unchanged. With exactly one, that tile's file is opened and
  decoded; where both succeed with image \<open>d\<close> the call returns \<open>d\<close> (turned by the
  engine) and the cache is the old one with \<open>FirstGID + ID\<close> holding \<open>d\<close>, and where one
  fails the call returns the error with the cache unchanged.
\<close>

theorem getTileImage_cache_miss:
  assumes "Tileset tile = Some ts" and "tileCache r (FirstGID ts + ID tile) = None"
  shows
    "(Tileset_Image ts = Some im \<and>
      open_file ex r (GetFileFullPath ex ts (Source im)) = Inr sf \<and>
      image_Decode ex sf = Inr img \<longrightarrow>
        (\<forall>i. i < to_uint32 (TileCount ts) \<longrightarrow>
           tileCache (snd (getTileImage ex r tile)) (FirstGID ts + i)
             = Some (imaging_Crop ex img (GetTileRect ex ts i))) \<and>
        (\<forall>k. \<not> k - FirstGID ts < to_uint32 (TileCount ts) \<longrightarrow>
           tileCache (snd (getTileImage ex r tile)) k = tileCache r k)) \<and>
     (Tileset_Image ts = None \<longrightarrow>
        (\<forall>k. k \<noteq> FirstGID ts + ID tile \<longrightarrow>
           tileCache (snd (getTileImage ex r tile)) k = tileCache r k) \<and>
        ((\<exists>t \<in> set (Tileset_Tiles ts). TilesetTile_ID t = ID tile) \<and>
         (\<exists>v. fst (getTileImage ex r tile) = Inr v) \<longrightarrow>
           tileCache (snd (getTileImage ex r tile)) (FirstGID ts + ID tile) \<noteq> None) \<and>
        getTileImage ex r tile =
          (case loadTiles ex ts tile
                  (filter (\<lambda>t. TilesetTile_ID t = ID tile) (Tileset_Tiles ts)) None r of
             (Some e, timg, r') \<Rightarrow> (Inl e, r')
           | (None, timg, r') \<Rightarrow> (engine_RotateTileImage ex (engine r') tile timg, r')) \<and>
        (filter (\<lambda>t. TilesetTile_ID t = ID tile) (Tileset_Tiles ts) = [] \<longrightarrow>
           getTileImage ex r tile = (engine_RotateTileImage ex (engine r) tile None, r)) \<and>
        (filter (\<lambda>t. TilesetTile_ID t = ID tile) (Tileset_Tiles ts) = [t] \<longrightarrow>
           getTileImage ex r tile =
             (case TilesetTile_Image t of
                None \<Rightarrow> (Inl PanicNilDereference, r)
              | Some im \<Rightarrow>
                  (case open_file ex r (GetFileFullPath ex ts (Source im)) of
                     Inl e \<Rightarrow> (Inl e, r)
                   | Inr sf \<Rightarrow>
                       (case image_Decode ex sf of
                          Inl e \<Rightarrow> (Inl e, r)
                        | Inr d \<Rightarrow>
                            (engine_RotateTileImage ex (engine r) tile (Some d),
                             r\<lparr>tileCache := (tileCache r)(FirstGID ts + ID tile \<mapsto> d)\<rparr>))))))"
proof (rule conjI)
  show "Tileset_Image ts = Some im \<and>
      open_file ex r (GetFileFullPath ex ts (Source im)) = Inr sf \<and>
      image_Decode ex sf = Inr img \<longrightarrow>
        (\<forall>i. i < to_uint32 (TileCount ts) \<longrightarrow>
           tileCache (snd (getTileImage ex r tile)) (FirstGID ts + i)
             = Some (imaging_Crop ex img (GetTileRect ex ts i))) \<and>
        (\<forall>k. \<not> k - FirstGID ts < to_uint32 (TileCount ts) \<longrightarrow>
           tileCache (snd (getTileImage ex r tile)) k = tileCache r k)"
  proof
    assume "Tileset_Image ts = Some im \<and>
      open_file ex r (GetFileFullPath ex ts (Source im)) = Inr sf \<and>
      image_Decode ex sf = Inr img"
    then have c: "tileCache (snd (getTileImage ex r tile)) =
       (\<lambda>k. if k - FirstGID ts < to_uint32 (TileCount ts)
            then Some (imaging_Crop ex img (GetTileRect ex ts (k - FirstGID ts)))
            else tileCache r k)"
      using getTileImage_atlas [OF assms] by blast
    show "(\<forall>i. i < to_uint32 (TileCount ts) \<longrightarrow>
           tileCache (snd (getTileImage ex r tile)) (FirstGID ts + i)
             = Some (imaging_Crop ex img (GetTileRect ex ts i))) \<and>
        (\<forall>k. \<not> k - FirstGID ts < to_uint32 (TileCount ts) \<longrightarrow>
           tileCache (snd (getTileImage ex r tile)) k = tileCache r k)"
      unfolding c by simp
  qed
next
  show "Tileset_Image ts = None \<longrightarrow>
        (\<forall>k. k \<noteq> FirstGID ts + ID tile \<longrightarrow>
           tileCache (snd (getTileImage ex r tile)) k = tileCache r k) \<and>
        ((\<exists>t \<in> set (Tileset_Tiles ts). TilesetTile_ID t = ID tile) \<and>
         (\<exists>v. fst (getTileImage ex r tile) = Inr v) \<longrightarrow>
           tileCache (snd (getTileImage ex r tile)) (FirstGID ts + ID tile) \<noteq> None) \<and>
        getTileImage ex r tile =
          (case loadTiles ex ts tile
                  (filter (\<lambda>t. TilesetTile_ID t = ID tile) (Tileset_Tiles ts)) None r of
             (Some e, timg, r') \<Rightarrow> (Inl e, r')
           | (None, timg, r') \<Rightarrow> (engine_RotateTileImage ex (engine r') tile timg, r')) \<and>
        (filter (\<lambda>t. TilesetTile_ID t = ID tile) (Tileset_Tiles ts) = [] \<longrightarrow>
           getTileImage ex r tile = (engine_RotateTileImage ex (engine r) tile None, r)) \<and>
        (filter (\<lambda>t. TilesetTile_ID t = ID tile) (Tileset_Tiles ts) = [t] \<longrightarrow>
           getTileImage ex r tile =
             (case TilesetTile_Image t of
                None \<Rightarrow> (Inl PanicNilDereference, r)
              | Some im \<Rightarrow>
                  (case open_file ex r (GetFileFullPath ex ts (Source im)) of
                     Inl e \<Rightarrow> (Inl e, r)
                   | Inr sf \<Rightarrow>
                       (case image_Decode ex sf of
                          Inl e \<Rightarrow> (Inl e, r)
                        | Inr d \<Rightarrow>
                            (engine_RotateTileImage ex (engine r) tile (Some d),
                             r\<lparr>tileCache := (tileCache r)(FirstGID ts + ID tile \<mapsto> d)\<rparr>)))))"
  proof (intro impI conjI)
    assume n: "Tileset_Image ts = None"
    show "\<forall>k. k \<noteq> FirstGID ts + ID tile \<longrightarrow>
           tileCache (snd (getTileImage ex r tile)) k = tileCache r k"
      by (rule getTileImage_collection(1) [OF assms n])
    show "getTileImage ex r tile =
          (case loadTiles ex ts tile
                  (filter (\<lambda>t. TilesetTile_ID t = ID tile) (Tileset_Tiles ts)) None r of
             (Some e, timg, r') \<Rightarrow> (Inl e, r')
           | (None, timg, r') \<Rightarrow> (engine_RotateTileImage ex (engine r') tile timg, r'))"
      by (rule getTileImage_collection_filter [OF assms n])
    {
      assume "(\<exists>t \<in> set (Tileset_Tiles ts). TilesetTile_ID t = ID tile) \<and>
         (\<exists>v. fst (getTileImage ex r tile) = Inr v)"
      then show "tileCache (snd (getTileImage ex r tile)) (FirstGID ts + ID tile) \<noteq> None"
        using getTileImage_collection(2) [OF assms n] by blast
    }
    {
      assume "filter (\<lambda>t. TilesetTile_ID t = ID tile) (Tileset_Tiles ts) = []"
      then show "getTileImage ex r tile = (engine_RotateTileImage ex (engine r) tile None, r)"
        by (rule getTileImage_collection_none [OF assms n])
    }
    {
      assume "filter (\<lambda>t. TilesetTile_ID t = ID tile) (Tileset_Tiles ts) = [t]"
      then show "getTileImage ex r tile =
             (case TilesetTile_Image t of
                None \<Rightarrow> (Inl PanicNilDereference, r)
              | Some im \<Rightarrow>
                  (case open_file ex r (GetFileFullPath ex ts (Source im)) of
                     Inl e \<Rightarrow> (Inl e, r)
                   | Inr sf \<Rightarrow>
                       (case image_Decode ex sf of
                          Inl e \<Rightarrow> (Inl e, r)
                        | Inr d \<Rightarrow>
                            (engine_RotateTileImage ex (engine r) tile (Some d),
                             r\<lparr>tileCache := (tileCache r)(FirstGID ts + ID tile \<mapsto> d)\<rparr>))))"
        by (rule getTileImage_collection_single [OF assms n])
    }
  qed
qed


lemma getTileImage_collection_example:
  "getTileImage test_ext hexRenderer (tileOf collectionTileset 0) =
     (Inr (Some (Decoded ''a.png'')),
      hexRenderer\<lparr>tileCache := (tileCache hexRenderer)(1 \<mapsto> Decoded ''a.png'')\<rparr>)"
  by (simp add: getTileImage_def tileOf_def collectionTileset_def hexRenderer_def test_ext_def
      open_file_def engine_RotateTileImage_def RotateTileImage_def)

text \<open>
  Claim C1, as stated: on a cache miss every tile of a tileset of separate images is
  opened, decoded and cached. It fails: the example tileset lists the tiles 0 and 1,
  nothing is cached, tile 0 is requested and returned, and afterwards the key of tile 1
  is still not in the cache.
\<close>

theorem getTileImage_collection_counterexample:
  "Tileset (tileOf collectionTileset 0) = Some collectionTileset \<and>
   Tileset_Image collectionTileset = None \<and>
   tileCache hexRenderer (FirstGID collectionTileset + ID (tileOf collectionTileset 0)) = None \<and>
   fst (getTileImage test_ext hexRenderer (tileOf collectionTileset 0)) = Inr (Some (Decoded ''a.png'')) \<and>
   TilesetTile_ID (Tileset_Tiles collectionTileset ! 1) = 1 \<and>
   tileCache (snd (getTileImage test_ext hexRenderer (tileOf collectionTileset 0)))
     (FirstGID collectionTileset + 1) = None"
  unfolding getTileImage_collection_example
  by (simp add: tileOf_def collectionTileset_def hexRenderer_def)

theorem getTileImage_cache_miss_witness:
  "Tileset (tileOf atlasTileset 0) = Some atlasTileset \<and>
   tileCache hexRenderer (FirstGID atlasTileset + ID (tileOf atlasTileset 0)) = None \<and>
   Tileset_Image atlasTileset = Some \<lparr>Source = ''atlas.png''\<rparr> \<and>
   open_file test_ext hexRenderer (GetFileFullPath test_ext atlasTileset (Source \<lparr>Source = ''atlas.png''\<rparr>))
     = Inr ''atlas.png'' \<and>
   image_Decode test_ext ''atlas.png'' = Inr (Decoded ''atlas.png'') \<and>
   (1 :: uint32) < to_uint32 (TileCount atlasTileset) \<and>
   tileCache (snd (getTileImage test_ext hexRenderer (tileOf atlasTileset 0))) (FirstGID atlasTileset + 1)
     = Some (imaging_Crop test_ext (Decoded ''atlas.png'') (GetTileRect test_ext atlasTileset 1)) \<and>
   \<not> (7 - FirstGID atlasTileset < to_uint32 (TileCount atlasTileset)) \<and>
   tileCache (snd (getTileImage test_ext hexRenderer (tileOf atlasTileset 0))) 7 = tileCache hexRenderer 7 \<and>
   Tileset (tileOf collectionTileset 0) = Some collectionTileset \<and>
   tileCache hexRenderer (FirstGID collectionTileset + ID (tileOf collectionTileset 0)) = None \<and>
   Tileset_Image collectionTileset = None \<and>
   2 \<noteq> FirstGID collectionTileset + ID (tileOf collectionTileset 0) \<and>
   tileCache (snd (getTileImage test_ext hexRenderer (tileOf collectionTileset 0))) 2 = tileCache hexRenderer 2 \<and>
   (\<exists>t \<in> set (Tileset_Tiles collectionTileset). TilesetTile_ID t = ID (tileOf collectionTileset 0)) \<and>
   (\<exists>v. fst (getTileImage test_ext hexRenderer (tileOf collectionTileset 0)) = Inr v) \<and>
   tileCache (snd (getTileImage test_ext hexRenderer (tileOf collectionTileset 0)))
     (FirstGID collectionTileset + ID (tileOf collectionTileset 0)) \<noteq> None \<and>
   filter (\<lambda>t. TilesetTile_ID t = ID (tileOf collectionTileset 0)) (Tileset_Tiles collectionTileset)
     = [\<lparr>TilesetTile_ID = 0, TilesetTile_Image = Some \<lparr>Source = ''a.png''\<rparr>\<rparr>] \<and>
   getTileImage test_ext hexRenderer (tileOf collectionTileset 0)
     = (Inr (Some (Decoded ''a.png'')),
        hexRenderer\<lparr>tileCache := (tileCache hexRenderer)(1 \<mapsto> Decoded ''a.png'')\<rparr>) \<and>
   Tileset (tileOf collectionTileset 7) = Some collectionTileset \<and>
   tileCache hexRenderer (FirstGID collectionTileset + ID (tileOf collectionTileset 7)) = None \<and>
   filter (\<lambda>t. TilesetTile_ID t = ID (tileOf collectionTileset 7)) (Tileset_Tiles collectionTileset)
     = [] \<and>
   getTileImage test_ext hexRenderer (tileOf collectionTileset 7) = (Inr None, hexRenderer)"
proof -
  have a1: "Tileset (tileOf atlasTileset 0) = Some atlasTileset"
    and a2: "tileCache hexRenderer (FirstGID atlasTileset + ID (tileOf atlasTileset 0)) = None"
    and a3: "Tileset_Image atlasTileset = Some \<lparr>Source = ''atlas.png''\<rparr>"
    and a4: "open_file test_ext hexRenderer
        (GetFileFullPath test_ext atlasTileset (Source \<lparr>Source = ''atlas.png''\<rparr>)) = Inr ''atlas.png''"
    and a5: "image_Decode test_ext ''atlas.png'' = Inr (Decoded ''atlas.png'')"
    and a6: "(1 :: uint32) < to_uint32 (TileCount atlasTileset)"
    and a7: "\<not> (7 - FirstGID atlasTileset < to_uint32 (TileCount atlasTileset))"
    by (simp_all add: tileOf_def atlasTileset_def hexRenderer_def test_ext_def open_file_def
        to_uint32_def)
  have c1: "Tileset (tileOf collectionTileset 0) = Some collectionTileset"
    and c2: "tileCache hexRenderer (FirstGID collectionTileset + ID (tileOf collectionTileset 0)) = None"
    and c3: "Tileset_Image collectionTileset = None"
    and c4: "2 \<noteq> FirstGID collectionTileset + ID (tileOf collectionTileset 0)"
    and c5: "\<exists>t \<in> set (Tileset_Tiles collectionTileset). TilesetTile_ID t = ID (tileOf collectionTileset 0)"
    by (simp_all add: tileOf_def collectionTileset_def hexRenderer_def)
  have c6: "\<exists>v. fst (getTileImage test_ext hexRenderer (tileOf collectionTileset 0)) = Inr v"
    by (simp add: getTileImage_collection_example)
  note atlas = getTileImage_cache_miss [OF a1 a2,
      of "\<lparr>Source = ''atlas.png''\<rparr>" test_ext "''atlas.png''" "Decoded ''atlas.png''"]
  have c7: "filter (\<lambda>t. TilesetTile_ID t = ID (tileOf collectionTileset 0))
        (Tileset_Tiles collectionTileset)
      = [\<lparr>TilesetTile_ID = 0, TilesetTile_Image = Some \<lparr>Source = ''a.png''\<rparr>\<rparr>]"
    by (simp add: tileOf_def collectionTileset_def)
  have d1: "Tileset (tileOf collectionTileset 7) = Some collectionTileset"
    and d2: "tileCache hexRenderer (FirstGID collectionTileset + ID (tileOf collectionTileset 7)) = None"
    and d3: "filter (\<lambda>t. TilesetTile_ID t = ID (tileOf collectionTileset 7))
        (Tileset_Tiles collectionTileset) = []"
    by (simp_all add: tileOf_def collectionTileset_def hexRenderer_def)
  note coll = getTileImage_cache_miss [OF c1 c2,
      where ex = test_ext
        and t = "\<lparr>TilesetTile_ID = 0, TilesetTile_Image = Some \<lparr>Source = ''a.png''\<rparr>\<rparr>"]
  note absent = getTileImage_cache_miss [OF d1 d2, where ex = test_ext]
  from coll c3 c7 have r5:
    "getTileImage test_ext hexRenderer (tileOf collectionTileset 0)
     = (Inr (Some (Decoded ''a.png'')),
        hexRenderer\<lparr>tileCache := (tileCache hexRenderer)(1 \<mapsto> Decoded ''a.png'')\<rparr>)"
    by (simp add: test_ext_def open_file_def hexRenderer_def collectionTileset_def tileOf_def
        engine_RotateTileImage_def RotateTileImage_def)
  from absent c3 d3 have r6:
    "getTileImage test_ext hexRenderer (tileOf collectionTileset 7) = (Inr None, hexRenderer)"
    by (simp add: hexRenderer_def tileOf_def engine_RotateTileImage_def RotateTileImage_def)
  from atlas a3 a4 a5 a6 have r1:
    "tileCache (snd (getTileImage test_ext hexRenderer (tileOf atlasTileset 0))) (FirstGID atlasTileset + 1)
     = Some (imaging_Crop test_ext (Decoded ''atlas.png'') (GetTileRect test_ext atlasTileset 1))"
    by blast
  from atlas a3 a4 a5 a7 have r2:
    "tileCache (snd (getTileImage test_ext hexRenderer (tileOf atlasTileset 0))) 7 = tileCache hexRenderer 7"
    by blast
  from coll c3 c4 have r3:
    "tileCache (snd (getTileImage test_ext hexRenderer (tileOf collectionTileset 0))) 2 = tileCache hexRenderer 2"
    by blast
  from coll c3 c5 c6 have r4:
    "tileCache (snd (getTileImage test_ext hexRenderer (tileOf collectionTileset 0)))
     (FirstGID collectionTileset + ID (tileOf collectionTileset 0)) \<noteq> None"
    by blast
  from a1 a2 a3 a4 a5 a6 a7 c1 c2 c3 c4 c5 c6 c7 d1 d2 d3 r1 r2 r3 r4 r5 r6 show ?thesis
    by blast
qed


end
